theory Spec2Isabelle
  imports Complex_Main "HOL-Library.Word"
begin

section \<open>Values shared by the LVAP and the summary trigger\<close>

text \<open>
  An \<open>EtherAddress\<close> is a 6-byte hardware address. Python values that reach the code
  untyped (descriptor fields, decoded frame fields, arguments of setters) are \<open>pyval\<close>;
  the float produced by \<open>int(x) / 2.0\<close> is exact for an 8-bit \<open>x\<close> and is kept as a
  rational.
\<close>

type_synonym EtherAddress = "48 word"

datatype pyval = PNone | PInt int | PFloat rat | PStr string

fun truthy :: "pyval \<Rightarrow> bool" where
  "truthy PNone = False"
| "truthy (PInt n) = (n \<noteq> 0)"
| "truthy (PFloat q) = (q \<noteq> 0)"
| "truthy (PStr s) = (s \<noteq> [])"

datatype pyerror =
    KeyError string
  | KeyErrorAddr EtherAddress
  | ValueError string
  | TypeError string
  | AttributeError string
  | StopIteration

text \<open>
  A resource block names its access point by reference; the access point's identity is
  its address, so \<open>radio\<close> holds that address and the object itself lives in the
  \<open>wtp_heap\<close> of the world below.
\<close>

record ResourceBlock =
  radio :: EtherAddress
  hwaddr :: EtherAddress
  channel :: int
  band :: int

text \<open>
  Modelled from the spec: the class ResourcePool (empower.core.resourcepool) is not among
  the sources. Section 3 and 4.1 of the specification make it a set of blocks without
  duplicates, with membership, intersection, construction from a sequence, equality as
  sets and an extraction \<open>pop()\<close> that removes one element and returns it. A pool is
  kept here as the list of its elements in iteration order; \<open>pop()\<close> takes the first
  element in that order, so every possible choice of \<open>pop()\<close> is some ordering of
  the list.
\<close>

type_synonym ResourcePool = "ResourceBlock list"

definition ResourcePool_of :: "ResourceBlock list \<Rightarrow> ResourcePool" where
  "ResourcePool_of xs = remdups xs"

definition pool_eq :: "ResourcePool \<Rightarrow> ResourcePool \<Rightarrow> bool" where
  "pool_eq p q = (set p = set q)"

text \<open>
  Modelled from the spec: the operator \<open>&\<close> of ResourcePool is not among the sources.
  By section 4.1 the intersection of \<open>A\<close> and \<open>B\<close> is the sub-pool of \<open>A\<close> whose
  elements are also in \<open>B\<close> by value; sections 4.4 and 8 say which value is compared
  when the pool of a target access point meets the block of another one: there is no
  match exactly when the target does not support the same channel and band. The docstring
  of the LVAP says the same (the new access point must support the same channel and band
  of the old one), and only such a matching lets a descriptor of one block match more
  than one supported block. So a block of \<open>A\<close> is kept when some block of \<open>B\<close> has
  its channel and its band, whatever access point and hardware address either has.
\<close>

definition same_channel_band :: "ResourceBlock \<Rightarrow> ResourceBlock \<Rightarrow> bool" where
  "same_channel_band b c = (channel b = channel c \<and> band b = band c)"

definition pool_and :: "ResourcePool \<Rightarrow> ResourcePool \<Rightarrow> ResourcePool" where
  "pool_and p q = filter (\<lambda>b. list_ex (same_channel_band b) q) p"

definition pool_pop :: "ResourcePool \<Rightarrow> pyerror + (ResourceBlock \<times> ResourcePool)" where
  "pool_pop p = (case p of [] \<Rightarrow> Inl (KeyError ''pop from an empty set'') | b # rest \<Rightarrow> Inr (b, rest))"

text \<open>
  The access point (WTP). \<open>connection = None\<close> is Python's \<open>None\<close>; otherwise the
  connection carries whether its stream is closed. \<open>wtp_ports\<close> is the dictionary
  \<open>wtp.ports\<close> (port id to network port) in iteration order.
\<close>

record connection_state =
  stream_closed :: bool

record NetworkPort =
  port_id :: int
  iface :: string
  port_hwaddr :: EtherAddress

record WTP =
  connection :: "connection_state option"
  wtp_supports :: ResourcePool
  wtp_ports :: "(int \<times> NetworkPort) list"
  wtp_seq :: "32 word"

record Tenant =
  tenant_wtps :: "EtherAddress set"

section \<open>Wire messages and collaborator calls\<close>

text \<open>
  Modelled from the spec: the constants \<open>SET_MASK\<close> of the two port tables
  (empower.core.radioport) are not among the sources. Section 4.2 gives the messages of
  the downlink table the replace flag and those of the uplink table the merge flag.
\<close>

datatype set_mask = Replace | Merge

record Container =
  version :: "8 word"
  msg_type :: "8 word"
  msg_length :: "16 word"
  msg_seq :: "32 word"
  msg_module_id :: "32 word"

text \<open>
  Everything the code hands to a collaborator is appended to one ordered trace: the wire
  messages of the client-binding family (with the access point they go to), the bytes
  written on an access point's stream, the calls of the flow-table collaborator and the
  result callback of a module.
\<close>

datatype event =
    SendAddLvap EtherAddress EtherAddress ResourceBlock set_mask
  | SendDelLvap EtherAddress EtherAddress ResourceBlock
  | SendSetPort EtherAddress EtherAddress ResourceBlock
  | StreamWrite EtherAddress Container
  | AddStationFlows EtherAddress EtherAddress int
  | RemoveStationFlows EtherAddress EtherAddress
  | HandleCallback "32 word"

section \<open>The summary trigger (empower/triggers/summary.py)\<close>

definition PT_ADD_SUMMARY :: "8 word" where "PT_ADD_SUMMARY = 0x22"
definition PT_SUMMARY :: "8 word" where "PT_SUMMARY = 0x23"
definition PT_DEL_SUMMARY :: "8 word" where "PT_DEL_SUMMARY = 0x24"

text \<open>One entry of SUMMARY\_ENTRY, as the wire carries it.\<close>

record summary_entry =
  entry_addr :: EtherAddress
  entry_tsft :: "64 word"
  entry_seq :: "16 word"
  entry_rssi :: "8 word"
  entry_rate :: "8 word"
  entry_type :: "8 word"
  entry_subtype :: "8 word"
  entry_length :: "32 word"

text \<open>The dictionary built for each entry by \<open>handle_response\<close>.\<close>

record frame =
  frame_tsft :: int
  frame_seq :: int
  frame_rssi :: int
  frame_rate :: pyval
  frame_type :: string
  frame_subtype :: pyval
  frame_length :: int

record Summary =
  module_id :: "32 word"
  tenant_id :: nat
  module_addr :: "EtherAddress option"
  block :: "ResourceBlock option"
  limit :: int
  period :: int
  frames :: "frame list"

text \<open>
  The world: the runtime registry (\<open>RUNTIME.tenants\<close>, the keys of \<open>RUNTIME.wtps\<close>),
  the access-point objects by reference, the registry \<open>modules\<close> of the summary worker
  (a dictionary from module id to module, in iteration order) and the trace.
\<close>

record world =
  tenants :: "nat \<rightharpoonup> Tenant"
  wtps :: "EtherAddress set"
  wtp_heap :: "EtherAddress \<Rightarrow> WTP"
  modules :: "(32 word \<times> Summary) list"
  trace :: "event list"

definition emit :: "event \<Rightarrow> world \<Rightarrow> world" where
  "emit e w = w\<lparr>trace := trace w @ [e]\<rparr>"

text \<open>
  Modelled from the spec: \<open>remove_module\<close> of the worker (ModuleLVAPPWorker) is not
  among the sources. Section 4.5 of the specification says that unloading deregisters the
  module from the worker's registry and that doing so is idempotent, so removing an id
  drops its entry and removing an absent id changes nothing.
\<close>

definition remove_module :: "32 word \<Rightarrow> world \<Rightarrow> world" where
  "remove_module mid w = w\<lparr>modules := filter (\<lambda>(k, m). k \<noteq> mid) (modules w)\<rparr>"

text \<open>
  Modelled from the spec: the property \<open>wtp.seq\<close> is not among the sources. Section 6
  gives each connection a monotonically increasing sequence number; reading it advances
  the counter of the access point and yields the new value.
\<close>

definition next_seq :: "EtherAddress \<Rightarrow> world \<Rightarrow> 32 word \<times> world" where
  "next_seq a w =
     (let s = wtp_seq (wtp_heap w a) + 1
      in (s, w\<lparr>wtp_heap := (wtp_heap w)(a := (wtp_heap w a)\<lparr>wtp_seq := s\<rparr>)\<rparr>))"

text \<open>\<open>not wtp.connection or wtp.connection.stream.closed()\<close>\<close>

definition connection_unusable :: "WTP \<Rightarrow> bool" where
  "connection_unusable wtp =
     (case connection wtp of None \<Rightarrow> True | Some c \<Rightarrow> stream_closed c)"

text \<open>
  \<open>Summary.unload\<close>. The protocol version \<open>PT_VERSION\<close> is a constant of a module
  that is not among the sources and is taken as a parameter. Logging is not modelled.
\<close>

definition unload :: "8 word \<Rightarrow> Summary \<Rightarrow> world \<Rightarrow> pyerror option \<times> world" where
  "unload PT_VERSION self w =
     (let w1 = remove_module (module_id self) w in
      case block self of
        None \<Rightarrow> (Some (AttributeError ''radio''), w1)
      | Some b \<Rightarrow>
          let wtp = radio b in
          if connection_unusable (wtp_heap w1 wtp) then (None, w1)
          else
            let (s, w2) = next_seq wtp w1;
                del_rssi = \<lparr>version = PT_VERSION, msg_type = PT_DEL_SUMMARY,
                            msg_length = 12, msg_seq = s,
                            msg_module_id = module_id self\<rparr>
            in (None, emit (StreamWrite wtp del_rssi) w2))"

text \<open>The body of the loop of \<open>handle_response\<close>, for one received entry.\<close>

definition decode_rate :: "int \<Rightarrow> int \<Rightarrow> 8 word \<Rightarrow> pyval" where
  "decode_rate BT_L20 bnd r =
     (if bnd = BT_L20 then PFloat (of_int (uint r) / 2) else PInt (uint r))"

definition decode_type :: "8 word \<Rightarrow> string" where
  "decode_type t =
     (if t = 0x00 then ''MNGT''
      else if t = 0x04 then ''CTRL''
      else if t = 0x08 then ''DATA''
      else ''UNKN'')"

definition decode_subtype :: "8 word \<Rightarrow> pyval" where
  "decode_subtype s =
     (if s = 0x00 then PStr ''ASSOC_REQ''
      else if s = 0x10 then PStr ''ASSOC_RESP''
      else if s = 0x20 then PStr ''AUTH_REQ''
      else if s = 0x30 then PStr ''AUTH_RESP''
      else if s = 0x80 then PStr ''BEACON''
      else PInt (uint s))"

definition decode_frame :: "int \<Rightarrow> int \<Rightarrow> summary_entry \<Rightarrow> frame" where
  "decode_frame BT_L20 bnd recv =
     \<lparr>frame_tsft = uint (entry_tsft recv),
      frame_seq = uint (entry_seq recv),
      frame_rssi = sint (entry_rssi recv),
      frame_rate = decode_rate BT_L20 bnd (entry_rate recv),
      frame_type = decode_type (entry_type recv),
      frame_subtype = decode_subtype (entry_subtype recv),
      frame_length = uint (entry_length recv)\<rparr>"

text \<open>
  \<open>Summary.handle_response\<close>. The result is the raised error (if any), the module
  after the call and the world after the call. \<open>BT_L20\<close> is a constant of the absent
  resource-pool module and is a parameter. The loop appends one frame per entry to an
  emptied list, which is the \<open>map\<close> below.
\<close>

definition handle_response ::
  "8 word \<Rightarrow> int \<Rightarrow> Summary \<Rightarrow> summary_entry list \<Rightarrow> world \<Rightarrow> pyerror option \<times> Summary \<times> world" where
  "handle_response PT_VERSION BT_L20 self response_frames w =
     (case tenants w (tenant_id self) of
        None \<Rightarrow> (let (e, w') = unload PT_VERSION self w in (e, self, w'))
      | Some tenant \<Rightarrow>
          (case block self of
             None \<Rightarrow> (Some (AttributeError ''radio''), self, w)
           | Some b \<Rightarrow>
               if radio b \<notin> tenant_wtps tenant
               then (let (e, w') = unload PT_VERSION self w in (e, self, w'))
               else
                 let self' = self\<lparr>frames := map (decode_frame BT_L20 (band b)) response_frames\<rparr>
                 in (None, self', emit (HandleCallback (module_id self')) w)))"

text \<open>
  \<open>SummaryWorker.handle_bye\<close>: the first loop collects the ids of the modules whose
  block is in \<open>wtp.supports\<close> (a module without a block is never a member), the second
  removes them.
\<close>

definition block_in_supports :: "Summary \<Rightarrow> WTP \<Rightarrow> bool" where
  "block_in_supports m wtp =
     (case block m of None \<Rightarrow> False | Some b \<Rightarrow> b \<in> set (wtp_supports wtp))"

definition to_be_removed :: "world \<Rightarrow> EtherAddress \<Rightarrow> 32 word list" where
  "to_be_removed w wtp =
     concat (map (\<lambda>k. case map_of (modules w) k of
                         None \<Rightarrow> []
                       | Some m \<Rightarrow> if block_in_supports m (wtp_heap w wtp) then [k] else [])
                 (map fst (modules w)))"

definition handle_bye :: "EtherAddress \<Rightarrow> world \<Rightarrow> world" where
  "handle_bye wtp w = foldl (\<lambda>acc k. remove_module k acc) w (to_be_removed w wtp)"

text \<open>
  The setter of \<open>Summary.block\<close>. Its argument is a ResourceBlock, a dict or anything
  else. The constructor \<open>EtherAddress(...)\<close> and the builtin \<open>int(...)\<close> applied to the
  fields of a descriptor either raise or yield a value; both are parameters. The block is
  assigned in the last statement only, so the module is returned with the error when
  one is raised.
\<close>

datatype block_arg =
    ArgBlock ResourceBlock
  | ArgDict "string \<rightharpoonup> pyval"
  | ArgOther pyval

definition resolve_descriptor ::
  "(pyval \<Rightarrow> pyerror + EtherAddress) \<Rightarrow> (pyval \<Rightarrow> pyerror + int) \<Rightarrow> world \<Rightarrow>
   (string \<rightharpoonup> pyval) \<Rightarrow> pyerror + ResourceBlock" where
  "resolve_descriptor EtherAddress_new py_int w d =
     (case d ''wtp'' of
        None \<Rightarrow> Inl (KeyError ''wtp'')
      | Some v_wtp \<Rightarrow>
     (case EtherAddress_new v_wtp of
        Inl e \<Rightarrow> Inl e
      | Inr a \<Rightarrow>
     if a \<notin> wtps w then Inl (KeyErrorAddr a)
     else
     (case d ''hwaddr'' of
        None \<Rightarrow> Inl (ValueError ''Missing field: hwaddr'')
      | Some v_hwaddr \<Rightarrow>
     (case d ''channel'' of
        None \<Rightarrow> Inl (ValueError ''Missing field: channel'')
      | Some v_channel \<Rightarrow>
     (case d ''band'' of
        None \<Rightarrow> Inl (ValueError ''Missing field: band'')
      | Some v_band \<Rightarrow>
     if d ''wtp'' = None then Inl (ValueError ''Missing field: wtp'')
     else
     (case EtherAddress_new v_hwaddr of
        Inl e \<Rightarrow> Inl e
      | Inr hw \<Rightarrow>
     (case py_int v_channel of
        Inl e \<Rightarrow> Inl e
      | Inr ch \<Rightarrow>
     (case py_int v_band of
        Inl e \<Rightarrow> Inl e
      | Inr bd \<Rightarrow>
     let incoming = ResourcePool_of [\<lparr>radio = a, hwaddr = hw, channel = ch, band = bd\<rparr>];
         match = pool_and (wtp_supports (wtp_heap w a)) incoming
     in if match = [] then Inl (ValueError ''No block specified'')
        else if length match > 1 then Inl (ValueError ''More than one block specified'')
        else (case pool_pop match of Inl e \<Rightarrow> Inl e | Inr (b, rest) \<Rightarrow> Inr b)))))))))"

definition block_setter ::
  "(pyval \<Rightarrow> pyerror + EtherAddress) \<Rightarrow> (pyval \<Rightarrow> pyerror + int) \<Rightarrow> world \<Rightarrow>
   Summary \<Rightarrow> block_arg \<Rightarrow> pyerror option \<times> Summary" where
  "block_setter EtherAddress_new py_int w self v =
     (case v of
        ArgBlock b \<Rightarrow> (None, self\<lparr>block := Some b\<rparr>)
      | ArgDict d \<Rightarrow>
          (case resolve_descriptor EtherAddress_new py_int w d of
             Inl e \<Rightarrow> (Some e, self)
           | Inr b \<Rightarrow> (None, self\<lparr>block := Some b\<rparr>))
      | ArgOther x \<Rightarrow> (None, self))"

section \<open>The LVAP (empower/core/lvap.py)\<close>

text \<open>
  Modelled from the spec: the classes RadioPort and VirtualPort (empower.core.radioport,
  empower.core.virtualport) are not among the sources. By section 3 a RadioPort is the
  default configuration for one (LVAP, ResourceBlock) pair together with the
  back-references that route its wire messages; the specification names no default value,
  so the port is identified here by its two back-references, the LVAP by its address.
  A virtual port carries the fields its constructor is called with in \<open>set_ports\<close>.
\<close>

record RadioPort =
  port_lvap :: EtherAddress
  port_block :: ResourceBlock

record VirtualPort =
  dpid :: EtherAddress
  ovs_port_id :: int
  virtual_port_id :: int
  vport_hwaddr :: EtherAddress
  vport_iface :: string

text \<open>
  The LVAP. \<open>downlink\<close> and \<open>uplink\<close> are the two port tables, dictionaries from
  block to port in iteration order; \<open>ports\<close> is the private dictionary of virtual
  ports. The sample buffers and the rate statistics are touched by none of the methods
  below and are left out.
\<close>

record LVAP =
  addr :: EtherAddress
  bssid :: EtherAddress
  supports :: ResourcePool
  authentication_state :: bool
  association_state :: bool
  ssids :: "string list"
  encap :: EtherAddress
  assoc_id :: int
  ssid :: "string option"
  downlink :: "(ResourceBlock \<times> RadioPort) list"
  uplink :: "(ResourceBlock \<times> RadioPort) list"
  ports :: "(int \<times> VirtualPort) list"

definition new_RadioPort :: "LVAP \<Rightarrow> ResourceBlock \<Rightarrow> RadioPort" where
  "new_RadioPort self b = \<lparr>port_lvap = addr self, port_block = b\<rparr>"

text \<open>The result of a method of the LVAP: the error raised (if any), the LVAP, the world.\<close>

type_synonym lvap_result = "pyerror option \<times> LVAP \<times> world"

definition and_then :: "lvap_result \<Rightarrow> (LVAP \<Rightarrow> world \<Rightarrow> lvap_result) \<Rightarrow> lvap_result" where
  "and_then r f = (case r of (Some e, self, w) \<Rightarrow> (Some e, self, w) | (None, self, w) \<Rightarrow> f self w)"

fun for_each :: "('a \<Rightarrow> LVAP \<Rightarrow> world \<Rightarrow> lvap_result) \<Rightarrow> 'a list \<Rightarrow> LVAP \<Rightarrow> world \<Rightarrow> lvap_result" where
  "for_each body [] self w = (None, self, w)"
| "for_each body (x # xs) self w = and_then (body x self w) (for_each body xs)"

text \<open>The property \<open>wtp\<close>: the radio of the first key of the downlink table, if any.\<close>

definition wtp :: "LVAP \<Rightarrow> EtherAddress option" where
  "wtp self = (case downlink self of [] \<Rightarrow> None | (default_block, p) # rest \<Rightarrow> Some (radio default_block))"

definition set_tables :: "LVAP \<Rightarrow> world \<Rightarrow> lvap_result" where
  "set_tables self w =
     (case wtp self of
        None \<Rightarrow> (None, self, w)
      | Some a \<Rightarrow>
          (case map_of (ports self) 0 of
             None \<Rightarrow> (Some (KeyError ''0''), self, w)
           | Some vp \<Rightarrow> (None, self, emit (AddStationFlows (addr self) a (ovs_port_id vp)) w)))"

definition clear_tables :: "LVAP \<Rightarrow> world \<Rightarrow> lvap_result" where
  "clear_tables self w =
     (case wtp self of
        None \<Rightarrow> (None, self, w)
      | Some a \<Rightarrow> (None, self, emit (RemoveStationFlows (addr self) a) w))"

text \<open>
  \<open>set_ports\<close> empties the virtual-port dictionary and, for every network port of the
  access point whose interface is \<open>empower0\<close>, stores a virtual port under key 0 (a
  later one replaces an earlier one).
\<close>

definition VirtualPort_of :: "EtherAddress \<Rightarrow> NetworkPort \<Rightarrow> VirtualPort" where
  "VirtualPort_of a port =
     \<lparr>dpid = a, ovs_port_id = port_id port, virtual_port_id = 0,
      vport_hwaddr = port_hwaddr port, vport_iface = iface port\<rparr>"

definition empower0_vports :: "EtherAddress \<Rightarrow> NetworkPort list \<Rightarrow> (int \<times> VirtualPort) list" where
  "empower0_vports a values =
     foldl (\<lambda>acc port. if iface port \<noteq> ''empower0'' then acc else [(0, VirtualPort_of a port)])
       [] values"

definition set_ports :: "LVAP \<Rightarrow> world \<Rightarrow> lvap_result" where
  "set_ports self w =
     (case wtp self of
        None \<Rightarrow> (None, self\<lparr>ports := []\<rparr>, w)
      | Some a \<Rightarrow>
          (None, self\<lparr>ports := empower0_vports a (map snd (wtp_ports (wtp_heap w a)))\<rparr>, w))"

text \<open>
  The loops of the setters of \<open>encap\<close>, \<open>assoc_id\<close> and \<open>ssid\<close>: for every port of
  a table, \<open>port.block.radio.connection.send_add_lvap(port.lvap, port.block, SET_MASK)\<close>.
  An access point whose \<open>connection\<close> is \<open>None\<close> makes the attribute access raise.
\<close>

definition send_add_lvap :: "set_mask \<Rightarrow> RadioPort \<Rightarrow> LVAP \<Rightarrow> world \<Rightarrow> lvap_result" where
  "send_add_lvap flag port self w =
     (let a = radio (port_block port) in
      case connection (wtp_heap w a) of
        None \<Rightarrow> (Some (AttributeError ''send_add_lvap''), self, w)
      | Some c \<Rightarrow> (None, self, emit (SendAddLvap a (port_lvap port) (port_block port) flag) w))"

definition send_add_lvap_all :: "LVAP \<Rightarrow> world \<Rightarrow> lvap_result" where
  "send_add_lvap_all self w =
     and_then (for_each (send_add_lvap Replace) (map snd (downlink self)) self w)
       (\<lambda>self1 w1. for_each (send_add_lvap Merge) (map snd (uplink self1)) self1 w1)"

definition encap_setter :: "EtherAddress option \<Rightarrow> LVAP \<Rightarrow> world \<Rightarrow> lvap_result" where
  "encap_setter v self w =
     (let e = (case v of None \<Rightarrow> 0 | Some x \<Rightarrow> x) in
      if encap self = e then (None, self, w)
      else send_add_lvap_all (self\<lparr>encap := e\<rparr>) w)"

definition assoc_id_setter :: "int \<Rightarrow> LVAP \<Rightarrow> world \<Rightarrow> lvap_result" where
  "assoc_id_setter v self w =
     (if assoc_id self = v then (None, self, w)
      else send_add_lvap_all (self\<lparr>assoc_id := v\<rparr>) w)"

definition ssid_setter :: "string option \<Rightarrow> LVAP \<Rightarrow> world \<Rightarrow> lvap_result" where
  "ssid_setter v self w =
     (if ssid self = v then (None, self, w)
      else send_add_lvap_all (self\<lparr>ssid := v\<rparr>) w)"

definition ssids_setter :: "string list \<Rightarrow> LVAP \<Rightarrow> world \<Rightarrow> lvap_result" where
  "ssids_setter v self w = (None, self\<lparr>ssids := v\<rparr>, w)"

section \<open>The port tables\<close>

text \<open>
  Modelled from the spec: the classes DownlinkPort and UplinkPort
  (empower.core.radioport) are not among the sources. Section 4.2 of the specification
  gives the contract of the downlink table: inserting into the empty table binds the
  client, registers its virtual port, programs its flow-table entries and then sends an
  "add client" message with the replace flag to the access point of the resource;
  inserting a second entry is rejected; assigning to an existing key sends a "port
  update" message and changes neither flow tables nor virtual ports; deleting sends a
  "delete client" message to the owning access point unless its connection is closed,
  then tears down the flow-table entries and clears the virtual-port table. Registering
  the virtual port, programming and tearing down the flow tables are the LVAP's own
  \<open>set_ports\<close>, \<open>set_tables\<close> and \<open>clear_tables\<close>.

  A table sends its "add client" and "port update" messages on the connection of the
  access point of the resource. By sections 5 and 7 (4) a send against a closed
  connection is detected and skipped while the change of state stands; an access point
  with no connection object at all makes the access to the connection raise, as it does
  in the setters of the LVAP.
\<close>

definition table_send :: "event \<Rightarrow> ResourceBlock \<Rightarrow> LVAP \<Rightarrow> world \<Rightarrow> lvap_result" where
  "table_send msg key self w =
     (case connection (wtp_heap w (radio key)) of
        None \<Rightarrow> (Some (AttributeError ''connection''), self, w)
      | Some c \<Rightarrow> if stream_closed c then (None, self, w) else (None, self, emit msg w))"

definition downlink_setitem :: "ResourceBlock \<Rightarrow> RadioPort \<Rightarrow> LVAP \<Rightarrow> world \<Rightarrow> lvap_result" where
  "downlink_setitem key val self w =
     (if key \<in> fst ` set (downlink self) then
        table_send (SendSetPort (radio key) (port_lvap val) key) key
          (self\<lparr>downlink := map (\<lambda>(k, p). if k = key then (k, val) else (k, p)) (downlink self)\<rparr>)
          w
      else if downlink self = [] then
        and_then (set_ports (self\<lparr>downlink := [(key, val)]\<rparr>) w) (\<lambda>self1 w1.
        and_then (set_tables self1 w1) (\<lambda>self2 w2.
          table_send (SendAddLvap (radio key) (port_lvap val) key Replace) key self2 w2))
      else (Some (ValueError ''Only one block supported''), self, w))"

definition downlink_delitem :: "ResourceBlock \<Rightarrow> LVAP \<Rightarrow> world \<Rightarrow> lvap_result" where
  "downlink_delitem key self w =
     (case map_of (downlink self) key of
        None \<Rightarrow> (Some (KeyError ''block''), self, w)
      | Some port \<Rightarrow>
          let w1 = (if connection_unusable (wtp_heap w (radio key)) then w
                    else emit (SendDelLvap (radio key) (port_lvap port) key) w)
          in and_then (clear_tables self w1) (\<lambda>self1 w2.
               (None,
                self1\<lparr>downlink := filter (\<lambda>(k, p). k \<noteq> key) (downlink self1), ports := []\<rparr>,
                w2)))"

text \<open>
  Modelled from the spec: by section 4.2 the uplink table reacts to the same triggers
  with the merge flag, has no one-entry cap and never touches flow tables or virtual
  ports.
\<close>

definition uplink_setitem :: "ResourceBlock \<Rightarrow> RadioPort \<Rightarrow> LVAP \<Rightarrow> world \<Rightarrow> lvap_result" where
  "uplink_setitem key val self w =
     (if key \<in> fst ` set (uplink self) then
        table_send (SendSetPort (radio key) (port_lvap val) key) key
          (self\<lparr>uplink := map (\<lambda>(k, p). if k = key then (k, val) else (k, p)) (uplink self)\<rparr>)
          w
      else
        table_send (SendAddLvap (radio key) (port_lvap val) key Merge) key
          (self\<lparr>uplink := uplink self @ [(key, val)]\<rparr>) w)"

definition uplink_delitem :: "ResourceBlock \<Rightarrow> LVAP \<Rightarrow> world \<Rightarrow> lvap_result" where
  "uplink_delitem key self w =
     (case map_of (uplink self) key of
        None \<Rightarrow> (Some (KeyError ''block''), self, w)
      | Some port \<Rightarrow>
          (None,
           self\<lparr>uplink := filter (\<lambda>(k, p). k \<noteq> key) (uplink self)\<rparr>,
           if connection_unusable (wtp_heap w (radio key)) then w
           else emit (SendDelLvap (radio key) (port_lvap port) key) w))"

section \<open>The downlink setter and the handover by access point\<close>

text \<open>
  The argument of the setter of \<open>downlink\<close>: a ResourcePool, a ResourceBlock or any
  other Python value (\<open>None\<close> among them). An empty pool and a falsy value are falsy;
  a ResourceBlock is an object and is truthy. The setter is given the caller's object, so
  its result carries the argument as it is when the setter is left.
\<close>

datatype downlink_arg = DPool ResourcePool | DBlock ResourceBlock | DOther pyval

fun arg_truthy :: "downlink_arg \<Rightarrow> bool" where
  "arg_truthy (DPool p) = (p \<noteq> [])"
| "arg_truthy (DBlock b) = True"
| "arg_truthy (DOther v) = truthy v"

definition current_pool :: "LVAP \<Rightarrow> ResourcePool" where
  "current_pool self = ResourcePool_of (map fst (downlink self) @ map fst (uplink self))"

text \<open>The branch taken when \<open>current == pool\<close>.\<close>

definition refresh :: "LVAP \<Rightarrow> world \<Rightarrow> lvap_result" where
  "refresh self w =
     and_then (set_ports self w) (\<lambda>self1 w1.
     and_then (clear_tables self1 w1) (\<lambda>self2 w2.
       set_tables self2 w2))"

text \<open>
  The rest of the setter. The pool is the caller's object when a pool was passed, so
  the pool left by \<open>pop()\<close> is returned with the result.
\<close>

definition rebind :: "ResourcePool \<Rightarrow> LVAP \<Rightarrow> world \<Rightarrow> lvap_result \<times> ResourcePool" where
  "rebind pool self w =
     (case and_then (clear_tables self w) (\<lambda>self1 w1.
           and_then (for_each downlink_delitem (map fst (downlink self1)) self1 w1) (\<lambda>self2 w2.
             for_each uplink_delitem (map fst (uplink self2)) self2 w2)) of
        (Some e, self3, w3) \<Rightarrow> ((Some e, self3, w3), pool)
      | (None, self3, w3) \<Rightarrow>
          (case pool_pop pool of
             Inl e \<Rightarrow> ((Some e, self3, w3), pool)
           | Inr (default_block, rest) \<Rightarrow>
               (and_then (downlink_setitem default_block (new_RadioPort self3 default_block) self3 w3)
                  (\<lambda>self4 w4.
                and_then (set_ports self4 w4) (\<lambda>self5 w5.
                and_then (set_tables self5 w5) (\<lambda>self6 w6.
                  for_each (\<lambda>b s. uplink_setitem b (new_RadioPort s b) s) rest self6 w6))),
                rest)))"

definition set_pool :: "ResourcePool \<Rightarrow> LVAP \<Rightarrow> world \<Rightarrow> lvap_result \<times> ResourcePool" where
  "set_pool pool self w =
     (if pool_eq (current_pool self) pool then (refresh self w, pool)
      else rebind pool self w)"

definition downlink_setter :: "downlink_arg \<Rightarrow> LVAP \<Rightarrow> world \<Rightarrow> lvap_result \<times> downlink_arg" where
  "downlink_setter arg self w =
     (if \<not> arg_truthy arg then ((None, self, w), arg)
      else
        (case arg of
           DPool pool \<Rightarrow> (let (r, pool') = set_pool pool self w in (r, DPool pool'))
         | DBlock b \<Rightarrow> (let (r, pool') = set_pool (ResourcePool_of [b]) self w in (r, DBlock b))
         | DOther v \<Rightarrow> ((Some (TypeError ''Expected ResourcePool, ResourceBlock''), self, w), arg)))"

text \<open>
  The setter of \<open>wtp\<close>: the target access point is given by reference. The setter of
  \<open>scheduled_on\<close> it ends with is the setter of \<open>downlink\<close>.
\<close>

definition wtp_setter :: "EtherAddress \<Rightarrow> LVAP \<Rightarrow> world \<Rightarrow> lvap_result" where
  "wtp_setter target self w =
     (case downlink self of
        [] \<Rightarrow> (Some StopIteration, self, w)
      | (default_block, p) # others \<Rightarrow>
          let matching = pool_and (wtp_supports (wtp_heap w target)) (ResourcePool_of [default_block])
          in if matching = [] then fst (downlink_setter (DOther PNone) self w)
             else (case pool_pop matching of
                     Inl e \<Rightarrow> (Some e, self, w)
                   | Inr (b, rest) \<Rightarrow> fst (downlink_setter (DBlock b) self w)))"

text \<open>The parts of the result of the setter of \<open>downlink\<close>.\<close>

definition raised :: "lvap_result \<times> downlink_arg \<Rightarrow> pyerror option" where
  "raised r = fst (fst r)"

definition lvap_after :: "lvap_result \<times> downlink_arg \<Rightarrow> LVAP" where
  "lvap_after r = fst (snd (fst r))"

definition world_after :: "lvap_result \<times> downlink_arg \<Rightarrow> world" where
  "world_after r = snd (snd (fst r))"

definition arg_after :: "lvap_result \<times> downlink_arg \<Rightarrow> downlink_arg" where
  "arg_after r = snd r"

text \<open>The wire messages that add or delete a client, among all events.\<close>

fun is_add_or_del :: "event \<Rightarrow> bool" where
  "is_add_or_del (SendAddLvap a l b m) = True"
| "is_add_or_del (SendDelLvap a l b) = True"
| "is_add_or_del e = False"

definition has_empower0 :: "WTP \<Rightarrow> bool" where
  "has_empower0 ap = list_ex (\<lambda>port. iface port = ''empower0'') (map snd (wtp_ports ap))"

definition dict_ok :: "('k \<times> 'v) list \<Rightarrow> bool" where
  "dict_ok d = distinct (map fst d)"

text \<open>
  The "delete client" messages that deleting the entries of a port table sends, in the
  order of the table: one per entry whose access point has a usable connection.
\<close>

definition del_msgs :: "world \<Rightarrow> (ResourceBlock \<times> RadioPort) list \<Rightarrow> event list" where
  "del_msgs w d =
     concat (map (\<lambda>(k, p). if connection_unusable (wtp_heap w (radio k)) then []
                            else [SendDelLvap (radio k) (port_lvap p) k]) d)"

text \<open>
  The "add client" messages that binding the given blocks sends, in their order: one per
  block whose access point has a usable connection.
\<close>

definition bind_msgs :: "world \<Rightarrow> EtherAddress \<Rightarrow> set_mask \<Rightarrow> ResourceBlock list \<Rightarrow> event list" where
  "bind_msgs w a flag ks =
     concat (map (\<lambda>k. if connection_unusable (wtp_heap w (radio k)) then []
                       else [SendAddLvap (radio k) a k flag]) ks)"

definition all_connected :: "world \<Rightarrow> ResourceBlock list \<Rightarrow> bool" where
  "all_connected w ks = list_all (\<lambda>k. connection (wtp_heap w (radio k)) \<noteq> None) ks"

text \<open>The "add client" messages sent for the ports of a table, in the order of the table.\<close>

definition add_msgs :: "set_mask \<Rightarrow> RadioPort list \<Rightarrow> event list" where
  "add_msgs flag ps =
     map (\<lambda>p. SendAddLvap (radio (port_block p)) (port_lvap p) (port_block p) flag) ps"

text \<open>
  A step returns normally with the given LVAP, leaves the access points as they are and
  adds the given add and delete messages to those of the trace.
\<close>

definition yields :: "lvap_result \<Rightarrow> world \<Rightarrow> LVAP \<Rightarrow> event list \<Rightarrow> bool" where
  "yields r w self' msgs =
     (case r of (e, self1, w1) \<Rightarrow>
        e = None \<and> self1 = self' \<and> wtp_heap w1 = wtp_heap w \<and>
        filter is_add_or_del (trace w1) = filter is_add_or_del (trace w) @ msgs)"

section \<open>Example inputs\<close>

text \<open>
  Two access points: access point 1 has an open connection and a port on interface
  \<open>empower0\<close>; every other access point has an open connection and no port at all.
  One module is bound to a block of each. The LVAP is scheduled on the block of access
  point 1, with the block of access point 2 as an uplink.
\<close>

definition ex_block :: ResourceBlock where
  "ex_block = \<lparr>radio = 1, hwaddr = 17, channel = 6, band = 0\<rparr>"

definition ex_block2 :: ResourceBlock where
  "ex_block2 = \<lparr>radio = 2, hwaddr = 18, channel = 6, band = 0\<rparr>"

definition ex_block3 :: ResourceBlock where
  "ex_block3 = \<lparr>radio = 1, hwaddr = 17, channel = 11, band = 0\<rparr>"

definition ex_wtp_open :: WTP where
  "ex_wtp_open =
     \<lparr>connection = Some \<lparr>stream_closed = False\<rparr>, wtp_supports = [ex_block, ex_block3],
      wtp_ports = [(1, \<lparr>port_id = 1, iface = ''empower0'', port_hwaddr = 33\<rparr>)], wtp_seq = 0\<rparr>"

definition ex_wtp_bare :: WTP where
  "ex_wtp_bare =
     \<lparr>connection = Some \<lparr>stream_closed = False\<rparr>, wtp_supports = [ex_block2],
      wtp_ports = [], wtp_seq = 0\<rparr>"

definition ex_summary :: Summary where
  "ex_summary =
     \<lparr>module_id = 7, tenant_id = 3, module_addr = Some 99, block = Some ex_block,
      limit = -1, period = 2000, frames = []\<rparr>"

definition ex_world :: world where
  "ex_world =
     \<lparr>tenants = [3 \<mapsto> \<lparr>tenant_wtps = {1}\<rparr>], wtps = {1, 2},
      wtp_heap = (\<lambda>a. if a = 1 then ex_wtp_open else ex_wtp_bare),
      modules = [(7, ex_summary), (8, ex_summary\<lparr>module_id := 8, block := Some ex_block2\<rparr>)],
      trace = []\<rparr>"

definition ex_entry :: summary_entry where
  "ex_entry =
     \<lparr>entry_addr = 5, entry_tsft = 1000, entry_seq = 2, entry_rssi = 200, entry_rate = 4,
      entry_type = 0x08, entry_subtype = 0x00, entry_length = 60\<rparr>"

definition ex_entry_unmapped :: summary_entry where
  "ex_entry_unmapped =
     \<lparr>entry_addr = 5, entry_tsft = 1001, entry_seq = 3, entry_rssi = 200, entry_rate = 4,
      entry_type = 0x00, entry_subtype = 0x99, entry_length = 60\<rparr>"

definition ex_lvap :: LVAP where
  "ex_lvap =
     \<lparr>addr = 50, bssid = 51, supports = [ex_block, ex_block2, ex_block3],
      authentication_state = True, association_state = True, ssids = [], encap = 0,
      assoc_id = 1, ssid = Some ''net'',
      downlink = [(ex_block, \<lparr>port_lvap = 50, port_block = ex_block\<rparr>)],
      uplink = [(ex_block2, \<lparr>port_lvap = 50, port_block = ex_block2\<rparr>)],
      ports = []\<rparr>"

text \<open>
  Access point 3 supports one block, on channel 36 of another band, and access point 4
  supports two blocks on channel 6 of band 0.
\<close>

definition ex_block_5ghz :: ResourceBlock where
  "ex_block_5ghz = \<lparr>radio = 3, hwaddr = 19, channel = 36, band = 1\<rparr>"

definition ex_wtp_5ghz :: WTP where
  "ex_wtp_5ghz =
     \<lparr>connection = Some \<lparr>stream_closed = False\<rparr>, wtp_supports = [ex_block_5ghz],
      wtp_ports = [(1, \<lparr>port_id = 1, iface = ''empower0'', port_hwaddr = 35\<rparr>)], wtp_seq = 0\<rparr>"

definition ex_world_5ghz :: world where
  "ex_world_5ghz =
     ex_world\<lparr>wtp_heap := (\<lambda>a. if a = 3 then ex_wtp_5ghz else wtp_heap ex_world a)\<rparr>"

text \<open>An LVAP scheduled on the block of access point 2, which has no port.\<close>

definition ex_lvap_bare :: LVAP where
  "ex_lvap_bare =
     ex_lvap\<lparr>downlink := [(ex_block2, \<lparr>port_lvap = 50, port_block = ex_block2\<rparr>)], uplink := []\<rparr>"

section \<open>Decoding a telemetry response\<close>

lemma handle_response_ok:
  assumes "tenants w (tenant_id self) = Some tenant" "block self = Some b"
    "radio b \<in> tenant_wtps tenant"
  shows "handle_response ver L20 self fs w =
           (None, self\<lparr>frames := map (decode_frame L20 (band b)) fs\<rparr>,
            emit (HandleCallback (module_id self)) w)"
  using assms by (simp add: handle_response_def)

text \<open>
  C1, as amended. When the tenant of the module exists and owns the access point of the
  module's block, \<open>handle_response\<close> returns normally and decodes every entry: the
  subtype codes 0x00, 0x10, 0x20, 0x30 and 0x80 become the names ASSOC\_REQ, ASSOC\_RESP,
  AUTH\_REQ, AUTH\_RESP and BEACON, whatever the frame type code of the entry is, and
  any other subtype code is passed through as its number; the type codes 0x00, 0x04 and
  0x08 become MNGT, CTRL and DATA and any other code UNKN.
\<close>

theorem handle_response_subtype_by_code_alone:
  assumes "tenants w (tenant_id self) = Some tenant" "block self = Some b"
    "radio b \<in> tenant_wtps tenant"
  shows "fst (handle_response ver L20 self fs w) = None \<and>
         map frame_subtype (frames (fst (snd (handle_response ver L20 self fs w)))) =
           map (\<lambda>recv. let s = entry_subtype recv in
                  if s = 0x00 then PStr ''ASSOC_REQ''
                  else if s = 0x10 then PStr ''ASSOC_RESP''
                  else if s = 0x20 then PStr ''AUTH_REQ''
                  else if s = 0x30 then PStr ''AUTH_RESP''
                  else if s = 0x80 then PStr ''BEACON''
                  else PInt (uint s)) fs \<and>
         map frame_type (frames (fst (snd (handle_response ver L20 self fs w)))) =
           map (\<lambda>recv. let t = entry_type recv in
                  if t = 0x00 then ''MNGT'' else if t = 0x04 then ''CTRL''
                  else if t = 0x08 then ''DATA'' else ''UNKN'') fs"
  using assms
  by (simp add: handle_response_ok decode_frame_def decode_type_def decode_subtype_def Let_def)

text \<open>
  The theorem at a response of two entries: a data frame with subtype code 0x00 and a
  management frame with the unmapped subtype code 0x99.
\<close>

theorem handle_response_subtype_by_code_alone_witness:
  "tenants ex_world (tenant_id ex_summary) = Some \<lparr>tenant_wtps = {1}\<rparr> \<and>
   block ex_summary = Some ex_block \<and>
   radio ex_block \<in> tenant_wtps \<lparr>tenant_wtps = {1}\<rparr> \<and>
   fst (handle_response 0 0 ex_summary [ex_entry, ex_entry_unmapped] ex_world) = None \<and>
   map frame_subtype
     (frames (fst (snd (handle_response 0 0 ex_summary [ex_entry, ex_entry_unmapped] ex_world)))) =
     [PStr ''ASSOC_REQ'', PInt 0x99] \<and>
   map frame_type
     (frames (fst (snd (handle_response 0 0 ex_summary [ex_entry, ex_entry_unmapped] ex_world)))) =
     [''DATA'', ''MNGT'']"
proof -
  have h1: "tenants ex_world (tenant_id ex_summary) = Some \<lparr>tenant_wtps = {1}\<rparr>"
    by (simp add: ex_world_def ex_summary_def)
  have h2: "block ex_summary = Some ex_block"
    by (simp add: ex_summary_def)
  have h3: "radio ex_block \<in> tenant_wtps \<lparr>tenant_wtps = {1}\<rparr>"
    by (simp add: ex_block_def)
  show ?thesis
    using h1 h2 h3
      handle_response_subtype_by_code_alone [OF h1 h2 h3, of 0 0 "[ex_entry, ex_entry_unmapped]"]
    by (simp add: ex_entry_def ex_entry_unmapped_def)
qed

text \<open>
  C1 as stated fails: the entry with frame type code 0x08 and subtype code 0x00 decodes
  to type DATA with subtype ASSOC\_REQ, not with subtype 0.
\<close>

theorem data_frame_subtype_zero_counterexample:
  "frame_type (hd (frames (fst (snd (handle_response 0 0 ex_summary [ex_entry] ex_world))))) = ''DATA'' \<and>
   frame_subtype (hd (frames (fst (snd (handle_response 0 0 ex_summary [ex_entry] ex_world))))) =
     PStr ''ASSOC_REQ'' \<and>
   frame_subtype (hd (frames (fst (snd (handle_response 0 0 ex_summary [ex_entry] ex_world))))) \<noteq>
     PInt 0"
  by (simp add: handle_response_def ex_summary_def ex_world_def ex_entry_def ex_block_def
        decode_frame_def decode_type_def decode_subtype_def)

section \<open>The block setter of the summary module\<close>

text \<open>
  C10. A value that is neither a ResourceBlock nor a dict makes the setter return
  without an error and with the module as it was.
\<close>

theorem block_setter_ignores_other_values:
  "block_setter EtherAddress_new py_int w self (ArgOther v) = (None, self)"
  by (simp add: block_setter_def)

text \<open>The theorem at a string and at an integer, with conversions that always succeed.\<close>

theorem block_setter_ignores_other_values_witness:
  "block_setter (\<lambda>x. Inr 1) (\<lambda>x. Inr 6) ex_world ex_summary (ArgOther (PStr ''block'')) =
     (None, ex_summary) \<and>
   block_setter (\<lambda>x. Inr 1) (\<lambda>x. Inr 6) ex_world ex_summary (ArgOther (PInt 42)) =
     (None, ex_summary)"
  using block_setter_ignores_other_values [of "\<lambda>x. Inr 1" "\<lambda>x. Inr 6" ex_world ex_summary "PStr ''block''"]
    block_setter_ignores_other_values [of "\<lambda>x. Inr 1" "\<lambda>x. Inr 6" ex_world ex_summary "PInt 42"]
  by simp

lemma block_setter_rejected_unchanged:
  "fst (block_setter EtherAddress_new py_int w self v) = Some e \<Longrightarrow>
   snd (block_setter EtherAddress_new py_int w self v) = self"
  by (auto simp: block_setter_def split: block_arg.splits sum.splits)

lemma block_setter_missing_hwaddr:
  assumes "d ''wtp'' = Some v" "EtherAddress_new v = Inr a" "a \<in> wtps w" "d ''hwaddr'' = None"
  shows "block_setter EtherAddress_new py_int w self (ArgDict d) =
           (Some (ValueError ''Missing field: hwaddr''), self)"
  using assms by (simp add: block_setter_def resolve_descriptor_def)

lemma block_setter_missing_channel:
  assumes "d ''wtp'' = Some v" "EtherAddress_new v = Inr a" "a \<in> wtps w" "d ''hwaddr'' = Some h"
    "d ''channel'' = None"
  shows "block_setter EtherAddress_new py_int w self (ArgDict d) =
           (Some (ValueError ''Missing field: channel''), self)"
  using assms by (simp add: block_setter_def resolve_descriptor_def)

lemma block_setter_missing_band:
  assumes "d ''wtp'' = Some v" "EtherAddress_new v = Inr a" "a \<in> wtps w" "d ''hwaddr'' = Some h"
    "d ''channel'' = Some c" "d ''band'' = None"
  shows "block_setter EtherAddress_new py_int w self (ArgDict d) =
           (Some (ValueError ''Missing field: band''), self)"
  using assms by (simp add: block_setter_def resolve_descriptor_def)

lemma block_setter_no_match:
  assumes "d ''wtp'' = Some v" "EtherAddress_new v = Inr a" "a \<in> wtps w"
    "d ''hwaddr'' = Some h" "EtherAddress_new h = Inr hw"
    "d ''channel'' = Some c" "py_int c = Inr ch" "d ''band'' = Some bv" "py_int bv = Inr bd"
    "filter (\<lambda>b. channel b = ch \<and> band b = bd) (wtp_supports (wtp_heap w a)) = []"
  shows "block_setter EtherAddress_new py_int w self (ArgDict d) =
           (Some (ValueError ''No block specified''), self)"
proof -
  have "pool_and (wtp_supports (wtp_heap w a))
          (ResourcePool_of [\<lparr>radio = a, hwaddr = hw, channel = ch, band = bd\<rparr>]) = []"
    using assms(10) by (simp add: pool_and_def ResourcePool_of_def same_channel_band_def)
  with assms show ?thesis
    by (simp add: block_setter_def resolve_descriptor_def)
qed

lemma block_setter_ambiguous:
  assumes "d ''wtp'' = Some v" "EtherAddress_new v = Inr a" "a \<in> wtps w"
    "d ''hwaddr'' = Some h" "EtherAddress_new h = Inr hw"
    "d ''channel'' = Some c" "py_int c = Inr ch" "d ''band'' = Some bv" "py_int bv = Inr bd"
    "length (filter (\<lambda>b. channel b = ch \<and> band b = bd) (wtp_supports (wtp_heap w a))) > 1"
  shows "block_setter EtherAddress_new py_int w self (ArgDict d) =
           (Some (ValueError ''More than one block specified''), self)"
proof -
  have "pool_and (wtp_supports (wtp_heap w a))
          (ResourcePool_of [\<lparr>radio = a, hwaddr = hw, channel = ch, band = bd\<rparr>]) =
        filter (\<lambda>b. channel b = ch \<and> band b = bd) (wtp_supports (wtp_heap w a))"
    by (simp add: pool_and_def ResourcePool_of_def same_channel_band_def)
  with assms show ?thesis
    by (auto simp: block_setter_def resolve_descriptor_def Let_def)
qed

text \<open>
  The check for a missing \<open>wtp\<close> field comes after the lookup that needs the field, so
  the error it would raise is raised by no descriptor (as long as the two conversions do
  not raise it themselves).
\<close>

lemma block_setter_never_missing_wtp:
  assumes "\<And>x. EtherAddress_new x \<noteq> Inl (ValueError ''Missing field: wtp'')"
    "\<And>x. py_int x \<noteq> Inl (ValueError ''Missing field: wtp'')"
  shows "fst (block_setter EtherAddress_new py_int w self (ArgDict d)) \<noteq>
           Some (ValueError ''Missing field: wtp'')"
  using assms
  by (auto simp: block_setter_def resolve_descriptor_def pool_pop_def Let_def
           split: option.splits sum.splits list.splits)

text \<open>
  C8, at the failing input. A descriptor that has the fields hwaddr, channel and band
  and lacks the field wtp is rejected and leaves the module as it was, but the error is
  the KeyError of the lookup \<open>value['wtp']\<close>, not the missing-field error that the
  setter raises for the other three fields.
\<close>

theorem block_setter_missing_wtp_raises_KeyError:
  "block_setter EtherAddress_new py_int w self
     (ArgDict [''hwaddr'' \<mapsto> PStr ''00:00:00:00:00:11'', ''channel'' \<mapsto> PInt 6,
               ''band'' \<mapsto> PInt 0])
   = (Some (KeyError ''wtp''), self)"
  by (simp add: block_setter_def resolve_descriptor_def)

section \<open>Unloading a module and the disconnect of an access point\<close>

lemma foldl_remove_module:
  "foldl (\<lambda>acc k. remove_module k acc) w ks =
     w\<lparr>modules := filter (\<lambda>(k, m). k \<notin> set ks) (modules w)\<rparr>"
proof (induction ks arbitrary: w)
  case Nil
  then show ?case by simp
next
  case (Cons k ks)
  have "filter (\<lambda>(k', m). k' \<notin> set ks) (filter (\<lambda>(k', m). k' \<noteq> k) (modules w))
        = filter (\<lambda>(k', m). k' \<notin> set (k # ks)) (modules w)"
    by (induction "modules w") (auto simp: case_prod_beta)
  with Cons show ?case by (simp add: remove_module_def)
qed

lemma map_of_filter_keys:
  "map_of (filter (\<lambda>(k, m). P k) xs) k = (if P k then map_of xs k else None)"
  by (induction xs) auto

lemma set_to_be_removed:
  "k \<in> set (to_be_removed w x) \<longleftrightarrow>
     (\<exists>m. map_of (modules w) k = Some m \<and> block_in_supports m (wtp_heap w x))"
proof
  assume "k \<in> set (to_be_removed w x)"
  then obtain k' where k': "k' \<in> fst ` set (modules w)"
    and mem: "k \<in> set (case map_of (modules w) k' of None \<Rightarrow> []
                 | Some m \<Rightarrow> if block_in_supports m (wtp_heap w x) then [k'] else [])"
    by (auto simp: to_be_removed_def)
  then show "\<exists>m. map_of (modules w) k = Some m \<and> block_in_supports m (wtp_heap w x)"
    by (cases "map_of (modules w) k'") (auto split: if_splits)
next
  assume "\<exists>m. map_of (modules w) k = Some m \<and> block_in_supports m (wtp_heap w x)"
  then obtain m where m: "map_of (modules w) k = Some m" "block_in_supports m (wtp_heap w x)"
    by blast
  then have "(k, m) \<in> set (modules w)" by (simp add: map_of_SomeD)
  then have "k \<in> fst ` set (modules w)" by force
  with m show "k \<in> set (to_be_removed w x)"
    by (auto simp: to_be_removed_def intro!: bexI [where x = "(k, m)"] dest: map_of_SomeD)
qed

text \<open>
  C7. After the bye of access point \<open>x\<close> the registry maps a module id to nothing when
  the module it held is bound to a block of \<open>x\<close>'s supported pool, and to the same
  module as before otherwise; nothing is written on any connection and no access point
  changes.
\<close>

theorem handle_bye_removes_exactly_supported:
  "map_of (modules (handle_bye x w)) k =
     (case map_of (modules w) k of
        None \<Rightarrow> None
      | Some m \<Rightarrow> if block_in_supports m (wtp_heap w x) then None else Some m) \<and>
   trace (handle_bye x w) = trace w \<and> wtp_heap (handle_bye x w) = wtp_heap w"
  by (auto simp: handle_bye_def foldl_remove_module map_of_filter_keys set_to_be_removed
           split: option.splits)

text \<open>
  The theorem at the bye of access point 1: module 7, bound to a block of access point 1,
  is gone, module 8 stays, and the trace is still empty.
\<close>

theorem handle_bye_removes_exactly_supported_witness:
  "map_of (modules (handle_bye 1 ex_world)) 7 = None \<and>
   map_of (modules (handle_bye 1 ex_world)) 8 =
     Some (ex_summary\<lparr>module_id := 8, block := Some ex_block2\<rparr>) \<and>
   trace (handle_bye 1 ex_world) = []"
  using handle_bye_removes_exactly_supported [of 1 ex_world 7]
    handle_bye_removes_exactly_supported [of 1 ex_world 8]
  by (simp add: ex_world_def ex_summary_def ex_wtp_open_def ex_block_def ex_block2_def
        ex_block3_def block_in_supports_def)

lemma unload_bound:
  assumes "block self = Some b"
  shows "unload ver self w =
     (None,
      if connection_unusable (wtp_heap w (radio b)) then remove_module (module_id self) w
      else emit (StreamWrite (radio b)
                   \<lparr>version = ver, msg_type = PT_DEL_SUMMARY, msg_length = 12,
                    msg_seq = wtp_seq (wtp_heap w (radio b)) + 1, msg_module_id = module_id self\<rparr>)
             (snd (next_seq (radio b) (remove_module (module_id self) w))))"
  using assms by (simp add: unload_def Let_def next_seq_def remove_module_def)

text \<open>
  C6, as amended. Unloading a module that has a block returns normally, drops the module's
  id from the registry and writes one teardown message on the stream of the block's access
  point when that connection is usable, none otherwise. Unloading the same module again
  changes the registry no further; it writes nothing when the connection is not usable,
  and when the connection is usable it writes a second teardown message, with the next
  sequence number.
\<close>

theorem unload_twice:
  assumes "block self = Some b"
  shows "fst (unload ver self w) = None \<and>
     modules (snd (unload ver self w)) = filter (\<lambda>(k, m). k \<noteq> module_id self) (modules w) \<and>
     trace (snd (unload ver self w)) =
       trace w @ (if connection_unusable (wtp_heap w (radio b)) then []
                  else [StreamWrite (radio b)
                          \<lparr>version = ver, msg_type = PT_DEL_SUMMARY, msg_length = 12,
                           msg_seq = wtp_seq (wtp_heap w (radio b)) + 1,
                           msg_module_id = module_id self\<rparr>]) \<and>
     fst (unload ver self (snd (unload ver self w))) = None \<and>
     modules (snd (unload ver self (snd (unload ver self w)))) = modules (snd (unload ver self w)) \<and>
     trace (snd (unload ver self (snd (unload ver self w)))) =
       trace (snd (unload ver self w)) @
         (if connection_unusable (wtp_heap w (radio b)) then []
          else [StreamWrite (radio b)
                  \<lparr>version = ver, msg_type = PT_DEL_SUMMARY, msg_length = 12,
                   msg_seq = wtp_seq (wtp_heap w (radio b)) + 2,
                   msg_module_id = module_id self\<rparr>])"
  using assms
  by (simp add: unload_bound emit_def next_seq_def remove_module_def connection_unusable_def
        Let_def split: option.splits)

text \<open>
  The theorem at module 7 of the example, whose access point has an open connection: the
  registry keeps only module 8 after the first unload and after the second, and the two
  unloads write two teardown messages.
\<close>

theorem unload_twice_witness:
  "block ex_summary = Some ex_block \<and>
   map fst (modules (snd (unload 0 ex_summary ex_world))) = [8] \<and>
   map fst (modules (snd (unload 0 ex_summary (snd (unload 0 ex_summary ex_world))))) = [8] \<and>
   trace (snd (unload 0 ex_summary (snd (unload 0 ex_summary ex_world)))) =
     [StreamWrite 1 \<lparr>version = 0, msg_type = PT_DEL_SUMMARY, msg_length = 12, msg_seq = 1,
                     msg_module_id = 7\<rparr>,
      StreamWrite 1 \<lparr>version = 0, msg_type = PT_DEL_SUMMARY, msg_length = 12, msg_seq = 2,
                     msg_module_id = 7\<rparr>]"
proof -
  have h: "block ex_summary = Some ex_block"
    by (simp add: ex_summary_def)
  show ?thesis
    using h unload_twice [OF h, of 0 ex_world]
    by (simp add: ex_world_def ex_summary_def ex_wtp_open_def ex_block_def
          connection_unusable_def)
qed

text \<open>
  C6 as stated fails: with the connection of the access point open, the second unload of
  module 7 leaves a trace that differs from the trace after the first unload.
\<close>

theorem second_unload_writes_again_counterexample:
  "trace (snd (unload 0 ex_summary (snd (unload 0 ex_summary ex_world)))) \<noteq>
   trace (snd (unload 0 ex_summary ex_world))"
  by (simp add: unload_def ex_summary_def ex_world_def ex_block_def ex_wtp_open_def emit_def
        next_seq_def remove_module_def connection_unusable_def Let_def)

section \<open>The setters of the client-global attributes\<close>

text \<open>
  The setters of \<open>encap\<close>, \<open>assoc_id\<close> and \<open>ssid\<close>: writing the current value
  sends nothing; writing a new value, when every bound access point has a connection,
  sends one "add client" message per downlink entry (replace flag) and per uplink entry
  (merge flag). The setter of \<open>ssids\<close> stores the list and sends nothing.
\<close>

lemma for_each_send_add_lvap:
  assumes "list_all (\<lambda>p. connection (wtp_heap w (radio (port_block p))) \<noteq> None) ps"
  shows "for_each (send_add_lvap flag) ps s w =
           (None, s, w\<lparr>trace := trace w @ add_msgs flag ps\<rparr>)"
  using assms
proof (induction ps arbitrary: w)
  case Nil
  then show ?case by (simp add: add_msgs_def)
next
  case (Cons p ps)
  from Cons.prems obtain c where c: "connection (wtp_heap w (radio (port_block p))) = Some c"
    by auto
  let ?w1 = "emit (SendAddLvap (radio (port_block p)) (port_lvap p) (port_block p) flag) w"
  have h: "wtp_heap ?w1 = wtp_heap w" by (simp add: emit_def)
  have "for_each (send_add_lvap flag) ps s ?w1 = (None, s, ?w1\<lparr>trace := trace ?w1 @ add_msgs flag ps\<rparr>)"
    using Cons.prems by (intro Cons.IH) (simp add: h)
  moreover have "send_add_lvap flag p s w = (None, s, ?w1)"
    using c by (simp add: send_add_lvap_def)
  ultimately show ?case
    by (simp add: and_then_def emit_def add_msgs_def)
qed

lemma send_add_lvap_all_ok:
  assumes "list_all (\<lambda>p. connection (wtp_heap w (radio (port_block p))) \<noteq> None)
             (map snd (downlink s) @ map snd (uplink s))"
  shows "send_add_lvap_all s w =
           (None, s, w\<lparr>trace := trace w @ add_msgs Replace (map snd (downlink s)) @
                                  add_msgs Merge (map snd (uplink s))\<rparr>)"
proof -
  have d: "for_each (send_add_lvap Replace) (map snd (downlink s)) s w =
             (None, s, w\<lparr>trace := trace w @ add_msgs Replace (map snd (downlink s))\<rparr>)"
    using assms by (intro for_each_send_add_lvap) simp
  have u: "for_each (send_add_lvap Merge) (map snd (uplink s)) s
             (w\<lparr>trace := trace w @ add_msgs Replace (map snd (downlink s))\<rparr>) =
             (None, s, w\<lparr>trace := trace w @ add_msgs Replace (map snd (downlink s))\<rparr>
                \<lparr>trace := trace (w\<lparr>trace := trace w @ add_msgs Replace (map snd (downlink s))\<rparr>) @
                           add_msgs Merge (map snd (uplink s))\<rparr>)"
    using assms by (intro for_each_send_add_lvap) simp
  show ?thesis
    by (simp add: send_add_lvap_all_def d u and_then_def)
qed

lemma setters_noop_on_equal_value:
  "encap_setter (Some (encap s)) s w = (None, s, w)"
  "assoc_id_setter (assoc_id s) s w = (None, s, w)"
  "ssid_setter (ssid s) s w = (None, s, w)"
  by (simp_all add: encap_setter_def assoc_id_setter_def ssid_setter_def)

lemma setters_send_on_new_value:
  assumes "list_all (\<lambda>p. connection (wtp_heap w (radio (port_block p))) \<noteq> None)
             (map snd (downlink s) @ map snd (uplink s))"
  shows "e \<noteq> encap s \<Longrightarrow>
           encap_setter (Some e) s w =
             (None, s\<lparr>encap := e\<rparr>,
              w\<lparr>trace := trace w @ add_msgs Replace (map snd (downlink s)) @
                                  add_msgs Merge (map snd (uplink s))\<rparr>)"
    and "a \<noteq> assoc_id s \<Longrightarrow>
           assoc_id_setter a s w =
             (None, s\<lparr>assoc_id := a\<rparr>,
              w\<lparr>trace := trace w @ add_msgs Replace (map snd (downlink s)) @
                                  add_msgs Merge (map snd (uplink s))\<rparr>)"
    and "n \<noteq> ssid s \<Longrightarrow>
           ssid_setter n s w =
             (None, s\<lparr>ssid := n\<rparr>,
              w\<lparr>trace := trace w @ add_msgs Replace (map snd (downlink s)) @
                                  add_msgs Merge (map snd (uplink s))\<rparr>)"
  using assms send_add_lvap_all_ok [of w "s\<lparr>encap := e\<rparr>"]
    send_add_lvap_all_ok [of w "s\<lparr>assoc_id := a\<rparr>"] send_add_lvap_all_ok [of w "s\<lparr>ssid := n\<rparr>"]
  by (auto simp: encap_setter_def assoc_id_setter_def ssid_setter_def)

lemma ssids_setter_silent:
  "ssids_setter v s w = (None, s\<lparr>ssids := v\<rparr>, w)"
  by (simp add: ssids_setter_def)

text \<open>
  C2, at the failing input. The LVAP of the example is bound to one downlink and one
  uplink block and broadcasts no SSID. Setting its list of SSIDs to a new value changes
  the list and sends nothing, whereas setting its encapsulation address to a new value
  sends one "add client" message to the access point of each of the two blocks.
\<close>

theorem ssids_setter_sends_nothing:
  "trace (snd (snd (ssids_setter [''guest''] ex_lvap ex_world))) = trace ex_world \<and>
   ssids (fst (snd (ssids_setter [''guest''] ex_lvap ex_world))) \<noteq> ssids ex_lvap \<and>
   trace (snd (snd (encap_setter (Some 9) ex_lvap ex_world))) =
     [SendAddLvap 1 50 ex_block Replace, SendAddLvap 2 50 ex_block2 Merge]"
  by (simp add: ssids_setter_def encap_setter_def send_add_lvap_all_def send_add_lvap_def
        and_then_def ex_lvap_def ex_world_def ex_wtp_open_def ex_wtp_bare_def ex_block_def
        ex_block2_def emit_def Let_def)

section \<open>Handover by access point\<close>

text \<open>
  C5. When the LVAP has a downlink entry and the intersection of the target's supported
  pool with the singleton pool of the LVAP's default block is empty, the setter of
  \<open>wtp\<close> returns without an error and leaves the LVAP and the world as they were.
\<close>

theorem wtp_setter_no_match_is_noop:
  assumes "downlink self \<noteq> []"
    "pool_and (wtp_supports (wtp_heap w target)) [fst (hd (downlink self))] = []"
  shows "wtp_setter target self w = (None, self, w)"
  using assms
  by (cases "downlink self")
     (auto simp: wtp_setter_def ResourcePool_of_def downlink_setter_def Let_def)

text \<open>
  The theorem at the example LVAP, scheduled on channel 6 of band 0 at access point 1,
  and the target access point 3, which supports channel 36 of another band only.
\<close>

theorem wtp_setter_no_match_is_noop_witness:
  "downlink ex_lvap \<noteq> [] \<and>
   pool_and (wtp_supports (wtp_heap ex_world_5ghz 3)) [fst (hd (downlink ex_lvap))] = [] \<and>
   wtp_setter 3 ex_lvap ex_world_5ghz = (None, ex_lvap, ex_world_5ghz)"
proof -
  have h1: "downlink ex_lvap \<noteq> []"
    by (simp add: ex_lvap_def)
  have h2: "pool_and (wtp_supports (wtp_heap ex_world_5ghz 3)) [fst (hd (downlink ex_lvap))] = []"
    by (simp add: ex_lvap_def ex_world_5ghz_def ex_wtp_5ghz_def pool_and_def same_channel_band_def
          ex_block_def ex_block_5ghz_def)
  show ?thesis
    using h1 h2 wtp_setter_no_match_is_noop [OF h1 h2] by simp
qed

text \<open>
  A target that supports the channel and band of the default block is a match, although
  its block belongs to another access point: for access point 2 the intersection holds
  the block of access point 2.
\<close>

lemma wtp_setter_match_across_access_points:
  "pool_and (wtp_supports (wtp_heap ex_world 2)) [fst (hd (downlink ex_lvap))] = [ex_block2]"
  by (simp add: ex_lvap_def ex_world_def ex_wtp_bare_def pool_and_def same_channel_band_def
        ex_block_def ex_block2_def)

section \<open>Rebinding and refreshing the downlink\<close>

subsection \<open>The virtual port of an access point\<close>

lemma empower0_vports_foldl:
  "foldl (\<lambda>acc port. if iface port \<noteq> ''empower0'' then acc else [(0, VirtualPort_of a port)]) acc ps =
     (if list_ex (\<lambda>p. iface p = ''empower0'') ps
      then [(0, VirtualPort_of a (last (filter (\<lambda>p. iface p = ''empower0'') ps)))] else acc)"
  by (induction ps arbitrary: acc) (auto simp: list_ex_iff filter_empty_conv)

lemma empower0_vports_none:
  "\<not> has_empower0 ap \<Longrightarrow> empower0_vports a (map snd (wtp_ports ap)) = []"
  by (simp add: empower0_vports_def empower0_vports_foldl has_empower0_def)

lemma empower0_vports_some:
  "has_empower0 ap \<Longrightarrow> map_of (empower0_vports a (map snd (wtp_ports ap))) 0 \<noteq> None"
  by (simp add: empower0_vports_def empower0_vports_foldl has_empower0_def)

subsection \<open>Steps that return normally\<close>

lemma del_msgs_heap:
  "wtp_heap w1 = wtp_heap w \<Longrightarrow> del_msgs w1 d = del_msgs w d"
  by (simp add: del_msgs_def)

lemma del_msgs_Cons:
  "del_msgs w ((k, p) # d) =
     (if connection_unusable (wtp_heap w (radio k)) then [] else [SendDelLvap (radio k) (port_lvap p) k])
     @ del_msgs w d"
  by (simp add: del_msgs_def)

lemma del_msgs_Nil: "del_msgs w [] = []"
  by (simp add: del_msgs_def)

lemma yields_and_then:
  assumes "yields r w s1 m1"
    and "\<And>w1. wtp_heap w1 = wtp_heap w \<Longrightarrow> yields (g s1 w1) w1 s2 m2"
  shows "yields (and_then r g) w s2 (m1 @ m2)"
proof -
  obtain w1 where r: "r = (None, s1, w1)" and h: "wtp_heap w1 = wtp_heap w"
    and t: "filter is_add_or_del (trace w1) = filter is_add_or_del (trace w) @ m1"
    using assms(1) by (cases r) (auto simp: yields_def)
  from assms(2) [OF h] r h t show ?thesis
    by (cases "g s1 w1") (auto simp: yields_def and_then_def)
qed

lemma yields_clear_tables: "yields (clear_tables s w) w s []"
  by (simp add: yields_def clear_tables_def emit_def split: option.splits)

lemma yields_set_ports:
  "yields (set_ports s w) w
     (s\<lparr>ports := (case wtp s of None \<Rightarrow> []
                   | Some a \<Rightarrow> empower0_vports a (map snd (wtp_ports (wtp_heap w a))))\<rparr>) []"
  by (simp add: yields_def set_ports_def split: option.splits)

lemma yields_set_tables:
  "wtp s = None \<or> map_of (ports s) 0 \<noteq> None \<Longrightarrow> yields (set_tables s w) w s []"
  by (auto simp: yields_def set_tables_def emit_def split: option.splits)

lemma filter_other_keys:
  "k \<notin> fst ` set d \<Longrightarrow> filter (\<lambda>(k', p). k' \<noteq> k) d = d"
  by (induction d) auto

lemma yields_downlink_delitem:
  assumes "downlink s = (k, p) # d" "k \<notin> fst ` set d"
  shows "yields (downlink_delitem k s w) w (s\<lparr>downlink := d, ports := []\<rparr>) (del_msgs w [(k, p)])"
  using assms
  by (simp add: yields_def downlink_delitem_def clear_tables_def wtp_def and_then_def emit_def
        del_msgs_def filter_other_keys Let_def)

lemma yields_del_all_downlink:
  "downlink s = d \<Longrightarrow> distinct (map fst d) \<Longrightarrow>
   yields (for_each downlink_delitem (map fst d) s w) w
     (s\<lparr>downlink := [], ports := (if d = [] then ports s else [])\<rparr>) (del_msgs w d)"
proof (induction d arbitrary: s w)
  case Nil
  then show ?case by (simp add: yields_def del_msgs_def)
next
  case (Cons kp d)
  obtain k p where kp: "kp = (k, p)" by (cases kp)
  from Cons.prems kp have dl: "downlink s = (k, p) # d" and nin: "k \<notin> fst ` set d"
    and dist: "distinct (map fst d)" by auto
  have step: "yields (downlink_delitem k s w) w (s\<lparr>downlink := d, ports := []\<rparr>) (del_msgs w [(k, p)])"
    by (rule yields_downlink_delitem [OF dl nin])
  have rest: "\<And>w1. wtp_heap w1 = wtp_heap w \<Longrightarrow>
      yields (for_each downlink_delitem (map fst d) (s\<lparr>downlink := d, ports := []\<rparr>) w1) w1
        (s\<lparr>downlink := [], ports := []\<rparr>) (del_msgs w d)"
  proof -
    fix w1 :: world assume h: "wtp_heap w1 = wtp_heap w"
    have "yields (for_each downlink_delitem (map fst d) (s\<lparr>downlink := d, ports := []\<rparr>) w1) w1
        ((s\<lparr>downlink := d, ports := []\<rparr>)\<lparr>downlink := [],
            ports := (if d = [] then ports (s\<lparr>downlink := d, ports := []\<rparr>) else [])\<rparr>) (del_msgs w1 d)"
      by (rule Cons.IH) (simp_all add: dist)
    then show "yields (for_each downlink_delitem (map fst d) (s\<lparr>downlink := d, ports := []\<rparr>) w1) w1
        (s\<lparr>downlink := [], ports := []\<rparr>) (del_msgs w d)"
      by (simp add: del_msgs_heap [OF h] cong: if_cong)
  qed
  from yields_and_then [where g = "for_each downlink_delitem (map fst d)", OF step rest] kp
  show ?case
    by (simp add: del_msgs_def)
qed

lemma yields_uplink_delitem:
  assumes "uplink s = (k, p) # d" "k \<notin> fst ` set d"
  shows "yields (uplink_delitem k s w) w (s\<lparr>uplink := d\<rparr>) (del_msgs w [(k, p)])"
  using assms
  by (simp add: yields_def uplink_delitem_def emit_def del_msgs_def filter_other_keys)

lemma yields_del_all_uplink:
  "uplink s = d \<Longrightarrow> distinct (map fst d) \<Longrightarrow>
   yields (for_each uplink_delitem (map fst d) s w) w (s\<lparr>uplink := []\<rparr>) (del_msgs w d)"
proof (induction d arbitrary: s w)
  case Nil
  then show ?case by (simp add: yields_def del_msgs_def)
next
  case (Cons kp d)
  obtain k p where kp: "kp = (k, p)" by (cases kp)
  from Cons.prems kp have dl: "uplink s = (k, p) # d" and nin: "k \<notin> fst ` set d"
    and dist: "distinct (map fst d)" by auto
  have step: "yields (uplink_delitem k s w) w (s\<lparr>uplink := d\<rparr>) (del_msgs w [(k, p)])"
    by (rule yields_uplink_delitem [OF dl nin])
  have rest: "\<And>w1. wtp_heap w1 = wtp_heap w \<Longrightarrow>
      yields (for_each uplink_delitem (map fst d) (s\<lparr>uplink := d\<rparr>) w1) w1
        (s\<lparr>uplink := []\<rparr>) (del_msgs w d)"
  proof -
    fix w1 :: world assume h: "wtp_heap w1 = wtp_heap w"
    have "yields (for_each uplink_delitem (map fst d) (s\<lparr>uplink := d\<rparr>) w1) w1
        ((s\<lparr>uplink := d\<rparr>)\<lparr>uplink := []\<rparr>) (del_msgs w1 d)"
      by (rule Cons.IH) (simp_all add: dist)
    then show "yields (for_each uplink_delitem (map fst d) (s\<lparr>uplink := d\<rparr>) w1) w1
        (s\<lparr>uplink := []\<rparr>) (del_msgs w d)"
      by (simp add: del_msgs_heap [OF h])
  qed
  from yields_and_then [where g = "for_each uplink_delitem (map fst d)", OF step rest] kp
  show ?case
    by (simp add: del_msgs_def)
qed

lemma bind_msgs_heap:
  "wtp_heap w1 = wtp_heap w \<Longrightarrow> bind_msgs w1 a flag ks = bind_msgs w a flag ks"
  by (simp add: bind_msgs_def)

lemma all_connected_heap:
  "wtp_heap w1 = wtp_heap w \<Longrightarrow> all_connected w1 ks = all_connected w ks"
  by (simp add: all_connected_def)

lemma yields_table_send_add:
  assumes "connection (wtp_heap w (radio k)) \<noteq> None"
  shows "yields (table_send (SendAddLvap (radio k) a k flag) k s w) w s (bind_msgs w a flag [k])"
  using assms
  by (auto simp: yields_def table_send_def bind_msgs_def connection_unusable_def emit_def
           split: option.splits)

lemma yields_add_all_uplink:
  "set ks \<inter> fst ` set (uplink s) = {} \<Longrightarrow> distinct ks \<Longrightarrow> all_connected w ks \<Longrightarrow>
   yields (for_each (\<lambda>b s. uplink_setitem b (new_RadioPort s b) s) ks s w) w
     (s\<lparr>uplink := uplink s @ map (\<lambda>k. (k, new_RadioPort s k)) ks\<rparr>)
     (bind_msgs w (addr s) Merge ks)"
proof (induction ks arbitrary: s w)
  case Nil
  then show ?case by (simp add: yields_def bind_msgs_def)
next
  case (Cons k ks)
  let ?s1 = "s\<lparr>uplink := uplink s @ [(k, new_RadioPort s k)]\<rparr>"
  have conn: "connection (wtp_heap w (radio k)) \<noteq> None" and cks: "all_connected w ks"
    using Cons.prems(3) by (simp_all add: all_connected_def)
  have us: "uplink_setitem k (new_RadioPort s k) s w =
              table_send (SendAddLvap (radio k) (addr s) k Merge) k ?s1 w"
    using Cons.prems(1) by (simp add: uplink_setitem_def new_RadioPort_def)
  have step: "yields (uplink_setitem k (new_RadioPort s k) s w) w ?s1
                (bind_msgs w (addr s) Merge [k])"
    unfolding us by (rule yields_table_send_add [OF conn])
  have rest: "\<And>w1 :: world. wtp_heap w1 = wtp_heap w \<Longrightarrow>
      yields (for_each (\<lambda>b s. uplink_setitem b (new_RadioPort s b) s) ks ?s1 w1) w1
        (s\<lparr>uplink := uplink s @ map (\<lambda>k. (k, new_RadioPort s k)) (k # ks)\<rparr>)
        (bind_msgs w (addr s) Merge ks)"
  proof -
    fix w1 :: world assume h: "wtp_heap w1 = wtp_heap w"
    have "yields (for_each (\<lambda>b s. uplink_setitem b (new_RadioPort s b) s) ks ?s1 w1) w1
        (?s1\<lparr>uplink := uplink ?s1 @ map (\<lambda>k. (k, new_RadioPort ?s1 k)) ks\<rparr>)
        (bind_msgs w1 (addr ?s1) Merge ks)"
      using Cons.prems cks by (intro Cons.IH) (auto simp: all_connected_heap [OF h])
    then show "yields (for_each (\<lambda>b s. uplink_setitem b (new_RadioPort s b) s) ks ?s1 w1) w1
        (s\<lparr>uplink := uplink s @ map (\<lambda>k. (k, new_RadioPort s k)) (k # ks)\<rparr>)
        (bind_msgs w (addr s) Merge ks)"
      by (simp add: new_RadioPort_def bind_msgs_heap [OF h])
  qed
  from yields_and_then
    [where g = "for_each (\<lambda>b s. uplink_setitem b (new_RadioPort s b) s) ks", OF step rest]
  show ?case by (simp add: bind_msgs_def)
qed

lemma yields_downlink_setitem:
  assumes "downlink s = []" "has_empower0 (wtp_heap w (radio b))"
    "connection (wtp_heap w (radio b)) \<noteq> None"
  shows "yields (downlink_setitem b port s w) w
           (s\<lparr>downlink := [(b, port)],
              ports := empower0_vports (radio b) (map snd (wtp_ports (wtp_heap w (radio b))))\<rparr>)
           (bind_msgs w (port_lvap port) Replace [b])"
  using assms empower0_vports_some [OF assms(2), of "radio b"]
  by (auto simp: yields_def downlink_setitem_def set_ports_def set_tables_def wtp_def and_then_def
        table_send_def bind_msgs_def connection_unusable_def emit_def split: option.splits)

lemma del_phase:
  assumes "dict_ok (downlink self)" "dict_ok (uplink self)"
  shows "yields
     (and_then (clear_tables self w) (\<lambda>self1 w1.
        and_then (for_each downlink_delitem (map fst (downlink self1)) self1 w1) (\<lambda>self2 w2.
          for_each uplink_delitem (map fst (uplink self2)) self2 w2)))
     w
     (self\<lparr>downlink := [], uplink := [],
           ports := (if downlink self = [] then ports self else [])\<rparr>)
     (del_msgs w (downlink self) @ del_msgs w (uplink self))"
proof -
  let ?s2 = "self\<lparr>downlink := [], ports := (if downlink self = [] then ports self else [])\<rparr>"
  let ?s3 = "?s2\<lparr>uplink := []\<rparr>"
  have u2: "uplink ?s2 = uplink self" by simp
  have up: "\<And>w2 :: world. wtp_heap w2 = wtp_heap w \<Longrightarrow>
      yields (for_each uplink_delitem (map fst (uplink ?s2)) ?s2 w2) w2 ?s3 (del_msgs w (uplink self))"
  proof -
    fix w2 :: world assume h: "wtp_heap w2 = wtp_heap w"
    have "yields (for_each uplink_delitem (map fst (uplink self)) ?s2 w2) w2 ?s3
            (del_msgs w2 (uplink self))"
      using assms(2) by (intro yields_del_all_uplink) (simp_all add: dict_ok_def)
    then show "yields (for_each uplink_delitem (map fst (uplink ?s2)) ?s2 w2) w2 ?s3
                 (del_msgs w (uplink self))"
      by (simp only: u2 del_msgs_heap [OF h])
  qed
  have down: "\<And>w1 :: world. wtp_heap w1 = wtp_heap w \<Longrightarrow>
      yields (and_then (for_each downlink_delitem (map fst (downlink self)) self w1) (\<lambda>self2 w2.
                for_each uplink_delitem (map fst (uplink self2)) self2 w2)) w1 ?s3
        (del_msgs w (downlink self) @ del_msgs w (uplink self))"
  proof -
    fix w1 :: world assume h: "wtp_heap w1 = wtp_heap w"
    have "yields (for_each downlink_delitem (map fst (downlink self)) self w1) w1 ?s2
               (del_msgs w1 (downlink self))"
      using assms(1) by (intro yields_del_all_downlink) (simp_all add: dict_ok_def)
    then have d: "yields (for_each downlink_delitem (map fst (downlink self)) self w1) w1 ?s2
               (del_msgs w (downlink self))"
      by (simp only: del_msgs_heap [OF h])
    have u: "\<And>w2 :: world. wtp_heap w2 = wtp_heap w1 \<Longrightarrow>
      yields (for_each uplink_delitem (map fst (uplink ?s2)) ?s2 w2) w2 ?s3 (del_msgs w (uplink self))"
      using up by (simp only: h)
    show "yields (and_then (for_each downlink_delitem (map fst (downlink self)) self w1) (\<lambda>self2 w2.
                for_each uplink_delitem (map fst (uplink self2)) self2 w2)) w1 ?s3
        (del_msgs w (downlink self) @ del_msgs w (uplink self))"
      by (rule yields_and_then
            [where g = "\<lambda>self2 w2. for_each uplink_delitem (map fst (uplink self2)) self2 w2",
             OF d u])
  qed
  have main: "yields
     (and_then (clear_tables self w) (\<lambda>self1 w1.
        and_then (for_each downlink_delitem (map fst (downlink self1)) self1 w1) (\<lambda>self2 w2.
          for_each uplink_delitem (map fst (uplink self2)) self2 w2)))
     w ?s3 ([] @ del_msgs w (downlink self) @ del_msgs w (uplink self))"
    by (rule yields_and_then
          [where g = "\<lambda>self1 w1.
              and_then (for_each downlink_delitem (map fst (downlink self1)) self1 w1) (\<lambda>self2 w2.
                for_each uplink_delitem (map fst (uplink self2)) self2 w2)",
           OF yields_clear_tables down])
  have eq: "?s3 = self\<lparr>downlink := [], uplink := [],
                        ports := (if downlink self = [] then ports self else [])\<rparr>"
    by simp
  from main show ?thesis by (simp only: eq append_Nil)
qed

lemma add_phase:
  assumes "downlink s = []" "uplink s = []" "distinct (b # rest)"
    "has_empower0 (wtp_heap w (radio b))" "all_connected w (b # rest)"
  shows "yields
     (and_then (downlink_setitem b (new_RadioPort s b) s w) (\<lambda>self4 w4.
        and_then (set_ports self4 w4) (\<lambda>self5 w5.
        and_then (set_tables self5 w5) (\<lambda>self6 w6.
          for_each (\<lambda>b s. uplink_setitem b (new_RadioPort s b) s) rest self6 w6))))
     w
     (s\<lparr>downlink := [(b, new_RadioPort s b)],
        uplink := map (\<lambda>k. (k, new_RadioPort s k)) rest,
        ports := empower0_vports (radio b) (map snd (wtp_ports (wtp_heap w (radio b))))\<rparr>)
     (bind_msgs w (addr s) Replace [b] @ bind_msgs w (addr s) Merge rest)"
proof -
  let ?V = "empower0_vports (radio b) (map snd (wtp_ports (wtp_heap w (radio b))))"
  let ?s4 = "s\<lparr>downlink := [(b, new_RadioPort s b)], ports := ?V\<rparr>"
  let ?fin = "s\<lparr>downlink := [(b, new_RadioPort s b)],
        uplink := map (\<lambda>k. (k, new_RadioPort s k)) rest, ports := ?V\<rparr>"
  let ?adds = "bind_msgs w (addr s) Merge rest"
  have cb: "connection (wtp_heap w (radio b)) \<noteq> None" and cr: "all_connected w rest"
    using assms(5) by (simp_all add: all_connected_def)
  have e0: "port_lvap (new_RadioPort s b) = addr s" by (simp add: new_RadioPort_def)
  have 1: "yields (downlink_setitem b (new_RadioPort s b) s w) w ?s4
             (bind_msgs w (addr s) Replace [b])"
    using yields_downlink_setitem [OF assms(1) assms(4) cb, of "new_RadioPort s b"]
    by (simp only: e0)
  have e1: "?s4\<lparr>uplink := uplink ?s4 @ map (\<lambda>k. (k, new_RadioPort ?s4 k)) rest\<rparr> = ?fin"
    using assms(2) by (simp add: new_RadioPort_def)
  have e2: "addr ?s4 = addr s" by simp
  have 4: "\<And>w6 :: world. wtp_heap w6 = wtp_heap w \<Longrightarrow>
      yields (for_each (\<lambda>b s. uplink_setitem b (new_RadioPort s b) s) rest ?s4 w6) w6 ?fin ?adds"
  proof -
    fix w6 :: world assume h: "wtp_heap w6 = wtp_heap w"
    have "yields (for_each (\<lambda>b s. uplink_setitem b (new_RadioPort s b) s) rest ?s4 w6) w6
            (?s4\<lparr>uplink := uplink ?s4 @ map (\<lambda>k. (k, new_RadioPort ?s4 k)) rest\<rparr>)
            (bind_msgs w6 (addr ?s4) Merge rest)"
      using assms(2,3) cr by (intro yields_add_all_uplink) (simp_all add: all_connected_heap [OF h])
    then show "yields (for_each (\<lambda>b s. uplink_setitem b (new_RadioPort s b) s) rest ?s4 w6) w6 ?fin ?adds"
      by (simp only: e1 e2 bind_msgs_heap [OF h])
  qed
  have 3: "\<And>w5 :: world. wtp_heap w5 = wtp_heap w \<Longrightarrow>
      yields (and_then (set_tables ?s4 w5) (\<lambda>self6 w6.
          for_each (\<lambda>b s. uplink_setitem b (new_RadioPort s b) s) rest self6 w6)) w5 ?fin ([] @ ?adds)"
  proof -
    fix w5 :: world assume h: "wtp_heap w5 = wtp_heap w"
    have st: "yields (set_tables ?s4 w5) w5 ?s4 []"
      using empower0_vports_some [OF assms(4), of "radio b"]
      by (intro yields_set_tables) simp
    have nx: "\<And>w6 :: world. wtp_heap w6 = wtp_heap w5 \<Longrightarrow>
      yields (for_each (\<lambda>b s. uplink_setitem b (new_RadioPort s b) s) rest ?s4 w6) w6 ?fin ?adds"
      using 4 by (simp only: h)
    show "yields (and_then (set_tables ?s4 w5) (\<lambda>self6 w6.
          for_each (\<lambda>b s. uplink_setitem b (new_RadioPort s b) s) rest self6 w6)) w5 ?fin ([] @ ?adds)"
      by (rule yields_and_then
            [where g = "\<lambda>self6 w6. for_each (\<lambda>b s. uplink_setitem b (new_RadioPort s b) s) rest self6 w6",
             OF st nx])
  qed
  have 2: "\<And>w4 :: world. wtp_heap w4 = wtp_heap w \<Longrightarrow>
      yields (and_then (set_ports ?s4 w4) (\<lambda>self5 w5.
        and_then (set_tables self5 w5) (\<lambda>self6 w6.
          for_each (\<lambda>b s. uplink_setitem b (new_RadioPort s b) s) rest self6 w6))) w4 ?fin
        ([] @ [] @ ?adds)"
  proof -
    fix w4 :: world assume h: "wtp_heap w4 = wtp_heap w"
    have e3: "?s4\<lparr>ports := (case wtp ?s4 of None \<Rightarrow> []
                 | Some a \<Rightarrow> empower0_vports a (map snd (wtp_ports (wtp_heap w4 a))))\<rparr> = ?s4"
      by (simp add: wtp_def h)
    have sp: "yields (set_ports ?s4 w4) w4 ?s4 []"
      using yields_set_ports [of ?s4 w4] by (simp only: e3)
    have nx: "\<And>w5 :: world. wtp_heap w5 = wtp_heap w4 \<Longrightarrow>
      yields (and_then (set_tables ?s4 w5) (\<lambda>self6 w6.
          for_each (\<lambda>b s. uplink_setitem b (new_RadioPort s b) s) rest self6 w6)) w5 ?fin ([] @ ?adds)"
      using 3 by (simp only: h)
    show "yields (and_then (set_ports ?s4 w4) (\<lambda>self5 w5.
        and_then (set_tables self5 w5) (\<lambda>self6 w6.
          for_each (\<lambda>b s. uplink_setitem b (new_RadioPort s b) s) rest self6 w6))) w4 ?fin
        ([] @ [] @ ?adds)"
      by (rule yields_and_then
            [where g = "\<lambda>self5 w5. and_then (set_tables self5 w5) (\<lambda>self6 w6.
                for_each (\<lambda>b s. uplink_setitem b (new_RadioPort s b) s) rest self6 w6)",
             OF sp nx])
  qed
  have "yields
     (and_then (downlink_setitem b (new_RadioPort s b) s w) (\<lambda>self4 w4.
        and_then (set_ports self4 w4) (\<lambda>self5 w5.
        and_then (set_tables self5 w5) (\<lambda>self6 w6.
          for_each (\<lambda>b s. uplink_setitem b (new_RadioPort s b) s) rest self6 w6))))
     w ?fin (bind_msgs w (addr s) Replace [b] @ [] @ [] @ ?adds)"
    by (rule yields_and_then
          [where g = "\<lambda>self4 w4. and_then (set_ports self4 w4) (\<lambda>self5 w5.
              and_then (set_tables self5 w5) (\<lambda>self6 w6.
                for_each (\<lambda>b s. uplink_setitem b (new_RadioPort s b) s) rest self6 w6))",
           OF 1 2])
  then show ?thesis by (simp only: append_Nil)
qed

lemma add_phase_fails:
  assumes "downlink s = []" "\<not> has_empower0 (wtp_heap w (radio b))"
  shows "and_then (downlink_setitem b port s w) g =
           (Some (KeyError ''0''), s\<lparr>downlink := [(b, port)], ports := []\<rparr>, w)"
  using assms empower0_vports_none [OF assms(2), of "radio b"]
  by (simp add: downlink_setitem_def set_ports_def set_tables_def wtp_def and_then_def)

lemma rebind_ok:
  assumes "dict_ok (downlink self)" "dict_ok (uplink self)" "distinct (b # rest)"
    "has_empower0 (wtp_heap w (radio b))" "all_connected w (b # rest)"
  shows "yields (fst (rebind (b # rest) self w)) w
           (self\<lparr>downlink := [(b, new_RadioPort self b)],
                 uplink := map (\<lambda>k. (k, new_RadioPort self k)) rest,
                 ports := empower0_vports (radio b) (map snd (wtp_ports (wtp_heap w (radio b))))\<rparr>)
           (del_msgs w (downlink self) @ del_msgs w (uplink self) @
            bind_msgs w (addr self) Replace [b] @ bind_msgs w (addr self) Merge rest)"
    and "snd (rebind (b # rest) self w) = rest"
proof -
  let ?s3 = "self\<lparr>downlink := [], uplink := [],
                  ports := (if downlink self = [] then ports self else [])\<rparr>"
  let ?del = "and_then (clear_tables self w) (\<lambda>self1 w1.
        and_then (for_each downlink_delitem (map fst (downlink self1)) self1 w1) (\<lambda>self2 w2.
          for_each uplink_delitem (map fst (uplink self2)) self2 w2))"
  from del_phase [OF assms(1,2), of w]
  obtain w3 where del: "?del = (None, ?s3, w3)" and h3: "wtp_heap w3 = wtp_heap w"
    and t3: "filter is_add_or_del (trace w3) =
             filter is_add_or_del (trace w) @ del_msgs w (downlink self) @ del_msgs w (uplink self)"
    by (cases ?del) (auto simp: yields_def)
  have e0: "has_empower0 (wtp_heap w3 (radio b))" using assms(4) h3 by simp
  have c3: "all_connected w3 (b # rest)" using assms(5) by (simp add: all_connected_heap [OF h3])
  have add: "yields
     (and_then (downlink_setitem b (new_RadioPort ?s3 b) ?s3 w3) (\<lambda>self4 w4.
        and_then (set_ports self4 w4) (\<lambda>self5 w5.
        and_then (set_tables self5 w5) (\<lambda>self6 w6.
          for_each (\<lambda>b s. uplink_setitem b (new_RadioPort s b) s) rest self6 w6))))
     w3
     (?s3\<lparr>downlink := [(b, new_RadioPort ?s3 b)],
        uplink := map (\<lambda>k. (k, new_RadioPort ?s3 k)) rest,
        ports := empower0_vports (radio b) (map snd (wtp_ports (wtp_heap w3 (radio b))))\<rparr>)
     (bind_msgs w3 (addr ?s3) Replace [b] @ bind_msgs w3 (addr ?s3) Merge rest)"
    by (rule add_phase [OF _ _ assms(3) e0 c3]) simp_all
  have rb: "rebind (b # rest) self w =
     (and_then (downlink_setitem b (new_RadioPort ?s3 b) ?s3 w3) (\<lambda>self4 w4.
        and_then (set_ports self4 w4) (\<lambda>self5 w5.
        and_then (set_tables self5 w5) (\<lambda>self6 w6.
          for_each (\<lambda>b s. uplink_setitem b (new_RadioPort s b) s) rest self6 w6))), rest)"
    unfolding rebind_def del by (simp add: pool_pop_def)
  show "snd (rebind (b # rest) self w) = rest" by (simp add: rb)
  from add h3 t3
  show "yields (fst (rebind (b # rest) self w)) w
           (self\<lparr>downlink := [(b, new_RadioPort self b)],
                 uplink := map (\<lambda>k. (k, new_RadioPort self k)) rest,
                 ports := empower0_vports (radio b) (map snd (wtp_ports (wtp_heap w (radio b))))\<rparr>)
           (del_msgs w (downlink self) @ del_msgs w (uplink self) @
            bind_msgs w (addr self) Replace [b] @ bind_msgs w (addr self) Merge rest)"
    unfolding rb fst_conv
    by (auto simp: yields_def new_RadioPort_def bind_msgs_heap [OF h3])
qed

lemma rebind_fails:
  assumes "dict_ok (downlink self)" "dict_ok (uplink self)"
    "\<not> has_empower0 (wtp_heap w (radio b))"
  shows "fst (fst (rebind (b # rest) self w)) = Some (KeyError ''0'')"
    and "uplink (fst (snd (fst (rebind (b # rest) self w)))) = []"
    and "map fst (downlink (fst (snd (fst (rebind (b # rest) self w))))) = [b]"
    and "snd (rebind (b # rest) self w) = rest"
proof -
  let ?s3 = "self\<lparr>downlink := [], uplink := [],
                  ports := (if downlink self = [] then ports self else [])\<rparr>"
  let ?del = "and_then (clear_tables self w) (\<lambda>self1 w1.
        and_then (for_each downlink_delitem (map fst (downlink self1)) self1 w1) (\<lambda>self2 w2.
          for_each uplink_delitem (map fst (uplink self2)) self2 w2))"
  from del_phase [OF assms(1,2), of w]
  obtain w3 where del: "?del = (None, ?s3, w3)" and h3: "wtp_heap w3 = wtp_heap w"
    by (cases ?del) (auto simp: yields_def)
  have e0: "\<not> has_empower0 (wtp_heap w3 (radio b))" using assms(3) h3 by simp
  have d3: "downlink ?s3 = []" by simp
  have rb: "rebind (b # rest) self w =
     ((Some (KeyError ''0''),
       ?s3\<lparr>downlink := [(b, new_RadioPort ?s3 b)], ports := []\<rparr>, w3), rest)"
    unfolding rebind_def del by (simp add: pool_pop_def add_phase_fails [OF d3 e0])
  show "fst (fst (rebind (b # rest) self w)) = Some (KeyError ''0'')"
    and "uplink (fst (snd (fst (rebind (b # rest) self w)))) = []"
    and "map fst (downlink (fst (snd (fst (rebind (b # rest) self w))))) = [b]"
    and "snd (rebind (b # rest) self w) = rest"
    by (simp_all add: rb)
qed

lemma refresh_result:
  "refresh self w =
     (case wtp self of
        None \<Rightarrow> (None, self\<lparr>ports := []\<rparr>, w)
      | Some a \<Rightarrow>
          (case map_of (empower0_vports a (map snd (wtp_ports (wtp_heap w a)))) 0 of
             None \<Rightarrow>
               (Some (KeyError ''0''),
                self\<lparr>ports := empower0_vports a (map snd (wtp_ports (wtp_heap w a)))\<rparr>,
                emit (RemoveStationFlows (addr self) a) w)
           | Some vp \<Rightarrow>
               (None,
                self\<lparr>ports := empower0_vports a (map snd (wtp_ports (wtp_heap w a)))\<rparr>,
                emit (AddStationFlows (addr self) a (ovs_port_id vp))
                  (emit (RemoveStationFlows (addr self) a) w))))"
  by (simp add: refresh_def set_ports_def clear_tables_def set_tables_def and_then_def wtp_def
        split: list.splits option.splits)

lemma refresh_lvap:
  "fst (snd (refresh s w)) =
     s\<lparr>ports := (case wtp s of
                    None \<Rightarrow> []
                  | Some a \<Rightarrow> empower0_vports a (map snd (wtp_ports (wtp_heap w a))))\<rparr>"
  by (simp add: refresh_result split: option.splits)

lemma map_of_vports_iff:
  "map_of (empower0_vports a (map snd (wtp_ports ap))) 0 = None \<longleftrightarrow> \<not> has_empower0 ap"
  using empower0_vports_none [of ap a] empower0_vports_some [of ap a] by auto

lemma ex_block3_not_current: "ex_block3 \<notin> set (current_pool ex_lvap)"
  by (simp add: current_pool_def ResourcePool_of_def ex_lvap_def ex_block_def ex_block2_def
        ex_block3_def)

lemma ex_pool_differs:
  "\<not> pool_eq (current_pool ex_lvap) [ex_block3, ex_block2]"
  "\<not> pool_eq (current_pool ex_lvap) [ex_block2, ex_block3]"
  using ex_block3_not_current by (auto simp: pool_eq_def)

lemma ex_del_msgs:
  "del_msgs ex_world (downlink ex_lvap) = [SendDelLvap 1 50 ex_block]"
  "del_msgs ex_world (uplink ex_lvap) = [SendDelLvap 2 50 ex_block2]"
  by (simp_all add: del_msgs_def connection_unusable_def ex_lvap_def ex_world_def ex_wtp_open_def
        ex_wtp_bare_def ex_block_def ex_block2_def)

lemma ex_fields:
  "addr ex_lvap = 50" "radio ex_block = 1" "radio ex_block2 = 2" "radio ex_block3 = 1"
  "trace ex_world = []"
  by (simp_all add: ex_lvap_def ex_world_def ex_block_def ex_block2_def ex_block3_def)

subsection \<open>The rebind path\<close>










lemma ex_bind_msgs:
  "bind_msgs ex_world 50 Replace [ex_block3] = [SendAddLvap 1 50 ex_block3 Replace]"
  "bind_msgs ex_world 50 Merge [ex_block2] = [SendAddLvap 2 50 ex_block2 Merge]"
  by (simp_all add: bind_msgs_def connection_unusable_def ex_world_def ex_wtp_open_def
        ex_wtp_bare_def ex_block2_def ex_block3_def)

text \<open>
  Where the rebind is served. Let the two port tables of the LVAP be dictionaries, let
  the requested pool \<open>P\<close> be a non-empty pool that is not set-equal to the current
  combined binding, let the access point of the block that \<open>pop()\<close> extracts (the
  first block of \<open>P\<close>) have a port on interface \<open>empower0\<close>, and let every access
  point of \<open>P\<close> have a connection. Then the setter returns normally; every former
  downlink and uplink entry is deleted, each deletion sending its "delete client"
  message unless the connection of its access point is unusable; the extracted block is
  the only downlink entry and every other block of \<open>P\<close> an uplink entry, each with a
  default RadioPort and each announced by one "add client" message (replace flag for the
  downlink, merge flag for an uplink) unless the connection of its access point is
  closed; and these are all the add and delete messages sent.
\<close>

lemma rebind_with_empower0:
  assumes "dict_ok (downlink self)" "dict_ok (uplink self)"
    and "P \<noteq> []" "distinct P" "\<not> pool_eq (current_pool self) P"
    and "has_empower0 (wtp_heap w (radio (hd P)))" "all_connected w P"
  shows "raised (downlink_setter (DPool P) self w) = None \<and>
     downlink (lvap_after (downlink_setter (DPool P) self w)) = [(hd P, new_RadioPort self (hd P))] \<and>
     uplink (lvap_after (downlink_setter (DPool P) self w)) =
       map (\<lambda>k. (k, new_RadioPort self k)) (tl P) \<and>
     filter is_add_or_del (trace (world_after (downlink_setter (DPool P) self w))) =
       filter is_add_or_del (trace w) @ del_msgs w (downlink self) @ del_msgs w (uplink self) @
       bind_msgs w (addr self) Replace [hd P] @ bind_msgs w (addr self) Merge (tl P)"
proof -
  obtain b rest where P: "P = b # rest" using assms(3) by (cases P) auto
  have ds: "downlink_setter (DPool P) self w =
              (fst (rebind (b # rest) self w), DPool (snd (rebind (b # rest) self w)))"
    using assms(5) by (simp add: downlink_setter_def set_pool_def P case_prod_beta)
  from rebind_ok(1) [of self b rest w] assms P
  have y: "yields (fst (rebind (b # rest) self w)) w
           (self\<lparr>downlink := [(b, new_RadioPort self b)],
                 uplink := map (\<lambda>k. (k, new_RadioPort self k)) rest,
                 ports := empower0_vports (radio b) (map snd (wtp_ports (wtp_heap w (radio b))))\<rparr>)
           (del_msgs w (downlink self) @ del_msgs w (uplink self) @
            bind_msgs w (addr self) Replace [b] @ bind_msgs w (addr self) Merge rest)"
    by simp
  then show ?thesis
    unfolding ds raised_def lvap_after_def world_after_def
    by (cases "fst (rebind (b # rest) self w)") (auto simp: yields_def P)
qed

text \<open>
  The example LVAP (downlink on a block of access point 1, uplink on the block of access
  point 2) and the pool of the other block of access point 1 and the block of access
  point 2.
\<close>

lemma rebind_with_empower0_example:
  "dict_ok (downlink ex_lvap) \<and> dict_ok (uplink ex_lvap) \<and>
   [ex_block3, ex_block2] \<noteq> [] \<and> distinct [ex_block3, ex_block2] \<and>
   \<not> pool_eq (current_pool ex_lvap) [ex_block3, ex_block2] \<and>
   has_empower0 (wtp_heap ex_world (radio (hd [ex_block3, ex_block2]))) \<and>
   all_connected ex_world [ex_block3, ex_block2] \<and>
   raised (downlink_setter (DPool [ex_block3, ex_block2]) ex_lvap ex_world) = None \<and>
   map fst (downlink (lvap_after (downlink_setter (DPool [ex_block3, ex_block2]) ex_lvap ex_world))) =
     [ex_block3] \<and>
   map fst (uplink (lvap_after (downlink_setter (DPool [ex_block3, ex_block2]) ex_lvap ex_world))) =
     [ex_block2] \<and>
   filter is_add_or_del
     (trace (world_after (downlink_setter (DPool [ex_block3, ex_block2]) ex_lvap ex_world))) =
     [SendDelLvap 1 50 ex_block, SendDelLvap 2 50 ex_block2,
      SendAddLvap 1 50 ex_block3 Replace, SendAddLvap 2 50 ex_block2 Merge]"
proof -
  have h1: "dict_ok (downlink ex_lvap)" by (simp add: dict_ok_def ex_lvap_def)
  have h2: "dict_ok (uplink ex_lvap)" by (simp add: dict_ok_def ex_lvap_def)
  have h3: "[ex_block3, ex_block2] \<noteq> []" by simp
  have h4: "distinct [ex_block3, ex_block2]" by (simp add: ex_block2_def ex_block3_def)
  have h5: "\<not> pool_eq (current_pool ex_lvap) [ex_block3, ex_block2]"
    by (rule ex_pool_differs)
  have h6: "has_empower0 (wtp_heap ex_world (radio (hd [ex_block3, ex_block2])))"
    by (simp add: has_empower0_def ex_world_def ex_wtp_open_def ex_block3_def)
  have h7: "all_connected ex_world [ex_block3, ex_block2]"
    by (simp add: all_connected_def ex_world_def ex_wtp_open_def ex_wtp_bare_def ex_block2_def
          ex_block3_def)
  show ?thesis
    using h1 h2 h4 h5 h6 h7 rebind_with_empower0 [OF h1 h2 h3 h4 h5 h6 h7]
    by (simp add: ex_del_msgs ex_bind_msgs ex_fields)
qed

text \<open>
  C3, at the failing input. The example LVAP is given the pool of the block of access
  point 2 and a block of access point 1, a non-empty pool that is not set-equal to its
  current binding; \<open>pop()\<close> extracts the block of access point 2, which has no port
  on \<open>empower0\<close>. The setter does not bind the remaining block as an uplink, as the
  claim and the docstring of the setter say it does: it raises KeyError in
  \<open>set_tables\<close> once the downlink entry is bound, and the uplink table stays empty.
\<close>

theorem rebind_without_empower0_raises:
  "[ex_block2, ex_block3] \<noteq> [] \<and> \<not> pool_eq (current_pool ex_lvap) [ex_block2, ex_block3] \<and>
   raised (downlink_setter (DPool [ex_block2, ex_block3]) ex_lvap ex_world) = Some (KeyError ''0'') \<and>
   map fst (downlink (lvap_after (downlink_setter (DPool [ex_block2, ex_block3]) ex_lvap ex_world))) =
     [ex_block2] \<and>
   uplink (lvap_after (downlink_setter (DPool [ex_block2, ex_block3]) ex_lvap ex_world)) = []"
proof -
  have h5: "\<not> pool_eq (current_pool ex_lvap) [ex_block2, ex_block3]"
    by (rule ex_pool_differs)
  have "downlink_setter (DPool [ex_block2, ex_block3]) ex_lvap ex_world =
          ((Some (KeyError ''0''),
            ex_lvap\<lparr>downlink := [(ex_block2, \<lparr>port_lvap = 50, port_block = ex_block2\<rparr>)],
                    uplink := [], ports := []\<rparr>,
            ex_world\<lparr>trace := [RemoveStationFlows 50 1, SendDelLvap 1 50 ex_block,
                                 RemoveStationFlows 50 1, SendDelLvap 2 50 ex_block2]\<rparr>),
           DPool [ex_block3])"
    using h5
    by (simp add: downlink_setter_def set_pool_def rebind_def and_then_def clear_tables_def wtp_def
          downlink_delitem_def uplink_delitem_def downlink_setitem_def set_ports_def set_tables_def
          table_send_def
          empower0_vports_def pool_pop_def new_RadioPort_def connection_unusable_def emit_def
          ex_lvap_def ex_world_def ex_wtp_open_def ex_wtp_bare_def ex_block_def ex_block2_def
          ex_block3_def Let_def)
  with h5 show ?thesis
    by (simp add: raised_def lvap_after_def)
qed



subsection \<open>The refresh path\<close>

text \<open>
  Assigning a non-empty pool that is set-equal to the current combined binding leaves
  both port tables and the caller's pool as they are and sends no add and no delete
  message. The virtual ports are set up again from the ports of the hosting access
  point, the flows of the client are removed and, when the hosting access point has a
  port on \<open>empower0\<close>, installed again; the setter returns normally exactly when the
  LVAP has no downlink entry or the hosting access point has such a port. Assigning the
  same pool once more gives the same LVAP.
\<close>

lemma refresh_on_equal_pool:
  assumes "P \<noteq> []" "pool_eq (current_pool self) P"
    and "r = downlink_setter (DPool P) self w"
  shows "downlink (lvap_after r) = downlink self \<and> uplink (lvap_after r) = uplink self \<and>
     filter is_add_or_del (trace (world_after r)) = filter is_add_or_del (trace w) \<and>
     arg_after r = DPool P \<and>
     raised r =
       (case wtp self of
          None \<Rightarrow> None
        | Some a \<Rightarrow> if has_empower0 (wtp_heap w a) then None else Some (KeyError ''0'')) \<and>
     lvap_after r =
       self\<lparr>ports := (case wtp self of
                         None \<Rightarrow> []
                       | Some a \<Rightarrow> empower0_vports a (map snd (wtp_ports (wtp_heap w a))))\<rparr> \<and>
     trace (world_after r) =
       trace w @
       (case wtp self of
          None \<Rightarrow> []
        | Some a \<Rightarrow>
            RemoveStationFlows (addr self) a #
            (case map_of (empower0_vports a (map snd (wtp_ports (wtp_heap w a)))) 0 of
               None \<Rightarrow> []
             | Some vp \<Rightarrow> [AddStationFlows (addr self) a (ovs_port_id vp)])) \<and>
     lvap_after (downlink_setter (DPool P) (lvap_after r) (world_after r)) = lvap_after r"
proof -
  have r: "r = (refresh self w, DPool P)"
    using assms by (simp add: downlink_setter_def set_pool_def)
  have first: "downlink (lvap_after r) = downlink self \<and> uplink (lvap_after r) = uplink self \<and>
     filter is_add_or_del (trace (world_after r)) = filter is_add_or_del (trace w) \<and>
     arg_after r = DPool P \<and>
     raised r =
       (case wtp self of
          None \<Rightarrow> None
        | Some a \<Rightarrow> if has_empower0 (wtp_heap w a) then None else Some (KeyError ''0'')) \<and>
     lvap_after r =
       self\<lparr>ports := (case wtp self of
                         None \<Rightarrow> []
                       | Some a \<Rightarrow> empower0_vports a (map snd (wtp_ports (wtp_heap w a))))\<rparr> \<and>
     trace (world_after r) =
       trace w @
       (case wtp self of
          None \<Rightarrow> []
        | Some a \<Rightarrow>
            RemoveStationFlows (addr self) a #
            (case map_of (empower0_vports a (map snd (wtp_ports (wtp_heap w a)))) 0 of
               None \<Rightarrow> []
             | Some vp \<Rightarrow> [AddStationFlows (addr self) a (ovs_port_id vp)]))"
    unfolding r lvap_after_def world_after_def arg_after_def raised_def refresh_result
    by (auto simp: emit_def map_of_vports_iff empower0_vports_none split: option.splits)
  have heap: "wtp_heap (world_after r) = wtp_heap w"
    unfolding r world_after_def refresh_result
    by (auto simp: emit_def split: option.splits)
  define s' where "s' = lvap_after r"
  define w' where "w' = world_after r"
  from first have tabs: "downlink s' = downlink self" "uplink s' = uplink self"
    and la: "s' = self\<lparr>ports := (case wtp self of
                         None \<Rightarrow> []
                       | Some a \<Rightarrow> empower0_vports a (map snd (wtp_ports (wtp_heap w a))))\<rparr>"
    by (simp_all add: s'_def)
  have peq: "pool_eq (current_pool s') P"
    using assms(2) tabs by (simp add: current_pool_def)
  have wtp_eq: "wtp s' = wtp self" using tabs by (simp add: wtp_def)
  have r2: "downlink_setter (DPool P) s' w' = (refresh s' w', DPool P)"
    using assms(1) peq by (simp add: downlink_setter_def set_pool_def)
  have "lvap_after (downlink_setter (DPool P) s' w') =
          s'\<lparr>ports := (case wtp s' of
                         None \<Rightarrow> []
                       | Some a \<Rightarrow> empower0_vports a (map snd (wtp_ports (wtp_heap w' a))))\<rparr>"
    unfolding r2 lvap_after_def by (simp add: refresh_lvap)
  also have "\<dots> = s'"
  proof -
    have heap': "wtp_heap w' = wtp_heap w" using heap by (simp add: w'_def)
    have "ports s' = (case wtp self of None \<Rightarrow> []
              | Some a \<Rightarrow> empower0_vports a (map snd (wtp_ports (wtp_heap w a))))"
      by (subst la) simp
    then have "s'\<lparr>ports := (case wtp self of None \<Rightarrow> []
              | Some a \<Rightarrow> empower0_vports a (map snd (wtp_ports (wtp_heap w a))))\<rparr> = s'"
      by (metis LVAP.surjective LVAP.update_convs(12))
    then show ?thesis unfolding wtp_eq heap' .
  qed
  finally have "lvap_after (downlink_setter (DPool P) (lvap_after r) (world_after r)) = lvap_after r"
    by (simp add: s'_def w'_def)
  with first show ?thesis by blast
qed

text \<open>
  The example LVAP and its two blocks, listed in the other order.
\<close>

lemma refresh_on_equal_pool_example:
  "[ex_block2, ex_block] \<noteq> [] \<and> pool_eq (current_pool ex_lvap) [ex_block2, ex_block] \<and>
   raised (downlink_setter (DPool [ex_block2, ex_block]) ex_lvap ex_world) = None \<and>
   downlink (lvap_after (downlink_setter (DPool [ex_block2, ex_block]) ex_lvap ex_world)) =
     downlink ex_lvap \<and>
   uplink (lvap_after (downlink_setter (DPool [ex_block2, ex_block]) ex_lvap ex_world)) =
     uplink ex_lvap \<and>
   arg_after (downlink_setter (DPool [ex_block2, ex_block]) ex_lvap ex_world) =
     DPool [ex_block2, ex_block] \<and>
   trace (world_after (downlink_setter (DPool [ex_block2, ex_block]) ex_lvap ex_world)) =
     [RemoveStationFlows 50 1, AddStationFlows 50 1 1]"
proof -
  have h1: "[ex_block2, ex_block] \<noteq> []" by simp
  have h2: "pool_eq (current_pool ex_lvap) [ex_block2, ex_block]"
    by (auto simp: pool_eq_def current_pool_def ResourcePool_of_def ex_lvap_def
          ex_block_def ex_block2_def)
  show ?thesis
    using h2 refresh_on_equal_pool [OF h1 h2 refl, of ex_world]
    by (simp add: wtp_def has_empower0_def empower0_vports_def VirtualPort_of_def ex_lvap_def
          ex_world_def ex_wtp_open_def ex_block_def)
qed

text \<open>
  C4, at the failing input. The LVAP scheduled on the block of access point 2, which has
  no port on \<open>empower0\<close>, is assigned the pool of that block, which is set-equal to
  its current binding. The setter does not return, as the claim and the comment on this
  branch say it does: it removes the flows of the client, installs none and raises
  KeyError in \<open>set_tables\<close>.
\<close>

theorem refresh_without_empower0_raises:
  "[ex_block2] \<noteq> [] \<and> pool_eq (current_pool ex_lvap_bare) [ex_block2] \<and>
   raised (downlink_setter (DPool [ex_block2]) ex_lvap_bare ex_world) = Some (KeyError ''0'') \<and>
   trace (world_after (downlink_setter (DPool [ex_block2]) ex_lvap_bare ex_world)) =
     [RemoveStationFlows 50 2]"
  by (simp add: raised_def world_after_def downlink_setter_def set_pool_def refresh_def
        and_then_def clear_tables_def set_ports_def set_tables_def wtp_def empower0_vports_def
        pool_eq_def current_pool_def ResourcePool_of_def emit_def ex_lvap_bare_def ex_lvap_def
        ex_world_def ex_wtp_bare_def ex_block2_def)

end
